theory Spec2Isabelle
  imports Complex_Main "HOL-Library.Log_Nat"
begin

section \<open>Search hits\<close>

text \<open>
  A sermon is the dictionary that \<open>RAGEngine.search\<close> (utils.py) builds for one hit of
  the vector store. All eight keys are always present there, so the lookups
  \<open>sermon['title']\<close>, \<open>sermon['description']\<close> and \<open>sermon['message_link']\<close> of the
  ranking code never raise \<open>KeyError\<close>, and the default of
  \<open>s.get('similarity_score', 0)\<close> is never used. \<open>image_url\<close> is read with
  \<open>metadata.get('image_url')\<close> and is \<open>None\<close> when the key is missing. Scores are Python
  floats; they are modelled by the rational numbers they denote, so a comparison of
  two scores is the comparison of the two rationals.
\<close>

record sermon =
  title :: string
  description :: string
  message_link :: string
  image_url :: "string option"
  channel :: string
  date :: string
  theme :: string
  similarity_score :: rat

section \<open>Pagination of a user's last search (telegram\_bot.py)\<close>

text \<open>
  \<open>PastorTaraBot.user_sessions\<close> is a dictionary from user id to
  \<open>{'sermons': ranked_sermons, 'index': n}\<close>, here the fields \<open>session_sermons\<close>
  and \<open>session_index\<close>. The index is written as \<open>0\<close>, as the
  requested count (a parsed run of digits, capped at 20) and as an old index plus five,
  so it is never negative.
\<close>

record session =
  session_sermons :: "sermon list"
  session_index :: nat

type_synonym user_sessions = "int \<rightharpoonup> session"

text \<open>
  What \<open>_handle_more\<close> tells the user. \<open>SearchFirst\<close> is the reply
  "Please search for sermons first before asking for more!", \<open>NoMore\<close> the reply
  "That's all the sermons I found for your search!", and \<open>Batch b more\<close> the batch
  \<open>b\<close> sent sermon by sermon, followed by "Still more available!" when \<open>more\<close> holds
  and by "That's all!" otherwise.
\<close>

datatype more_reply = SearchFirst | NoMore | Batch "sermon list" bool

text \<open>The slice \<open>xs[i:j]\<close> of Python for indexes that are not negative.\<close>

definition slice :: "'a list \<Rightarrow> nat \<Rightarrow> nat \<Rightarrow> 'a list" where
  "slice xs i j = take (j - i) (drop i xs)"

definition handle_more :: "user_sessions \<Rightarrow> int \<Rightarrow> more_reply \<times> user_sessions" where
  "handle_more user_sessions user_id =
     (case user_sessions user_id of
        None \<Rightarrow> (SearchFirst, user_sessions)
      | Some session \<Rightarrow>
          (let current_index = session_index session;
               next_batch = slice (session_sermons session) current_index (current_index + 5)
           in if next_batch = [] then (NoMore, user_sessions)
              else
                (let session' = session\<lparr>session_index := current_index + 5\<rparr>
                 in (Batch next_batch (session_index session' < length (session_sermons session')),
                     user_sessions(user_id \<mapsto> session')))))"

section \<open>Calls that may raise\<close>

text \<open>
  A call into a library or a remote service either raises or returns. The exceptions
  that the code below can meet are named; every handler in the source is
  \<open>except Exception\<close>, so only the fact that one was raised matters.
\<close>

datatype 'a outcome = Raised | Returned 'a

datatype pyerr =
  FileNotFoundError | JSONDecodeError | KeyError | TypeError | ValueError | LLMError

section \<open>The cache (utils.py, CacheManager)\<close>

text \<open>
  The cache is a directory with one file \<open>cache/<key>.json\<close> per key. A file is
  described by what \<open>json.load\<close> and the two lookups of \<open>get\<close> make of it:
  \<^item> \<open>NotJson\<close>: \<open>json.load\<close> raises;
  \<^item> \<open>NotDict\<close>: the text is JSON but not an object, so \<open>data['expires_at']\<close> raises;
  \<^item> \<open>Dict e v\<close>: an object with member \<open>'expires_at'\<close> \<open>e\<close> and member
    \<open>'value'\<close> \<open>v\<close>, each \<open>None\<close> when the object lacks it.

  For the member \<open>'expires_at'\<close>, \<open>NotIso\<close> is a value on which
  \<open>datetime.fromisoformat\<close> raises (not a string, or not an ISO-8601 text),
  \<open>Aware\<close> a text with a UTC offset, whose datetime the comparison with the naive
  \<open>datetime.now()\<close> rejects with \<open>TypeError\<close>, and \<open>Naive t\<close> a text without offset,
  the local time \<open>t\<close> in microseconds. \<open>set\<close> writes
  \<open>(datetime.now() + timedelta(...)).isoformat()\<close>, which is of the last kind.
  File-system calls themselves are taken to succeed.
\<close>

datatype expires = NotIso | Aware | Naive int

datatype 'v cache_file = NotJson | NotDict | Dict "expires option" "'v option"

type_synonym 'v cache_dir = "string \<rightharpoonup> 'v cache_file"

definition CACHE_PATH :: string where
  "CACHE_PATH = ''cache''"

definition CACHE_DURATION_HOURS :: int where
  "CACHE_DURATION_HOURS = 6"

definition cache_file_of :: "string \<Rightarrow> string" where
  "cache_file_of key = CACHE_PATH @ ''/'' @ key @ ''.json''"

text \<open>The body of the \<open>try\<close> block of \<open>get\<close>, with \<open>now\<close> the reading of the clock.\<close>

definition get_try :: "int \<Rightarrow> 'v cache_dir \<Rightarrow> string \<Rightarrow> pyerr + ('v option \<times> 'v cache_dir)" where
  "get_try now files cache_file =
     (case files cache_file of
        None \<Rightarrow> Inl FileNotFoundError
      | Some NotJson \<Rightarrow> Inl JSONDecodeError
      | Some NotDict \<Rightarrow> Inl TypeError
      | Some (Dict e v) \<Rightarrow>
          (case e of
             None \<Rightarrow> Inl KeyError
           | Some NotIso \<Rightarrow> Inl ValueError
           | Some Aware \<Rightarrow> Inl TypeError
           | Some (Naive expires_at) \<Rightarrow>
               if now > expires_at then Inr (None, files(cache_file := None))
               else (case v of
                       None \<Rightarrow> Inl KeyError
                     | Some val \<Rightarrow> Inr (Some val, files))))"

definition get :: "int \<Rightarrow> 'v cache_dir \<Rightarrow> string \<Rightarrow> 'v option \<times> 'v cache_dir" where
  "get now files key =
     (let cache_file = cache_file_of key
      in if files cache_file = None then (None, files)
         else (case get_try now files cache_file of
                 Inl e \<Rightarrow> (None, files)
               | Inr r \<Rightarrow> r))"

definition set_cache :: "int \<Rightarrow> 'v cache_dir \<Rightarrow> string \<Rightarrow> 'v \<Rightarrow> 'v cache_dir" where
  "set_cache now files key val =
     (let cache_file = cache_file_of key;
          expires_at = now + CACHE_DURATION_HOURS * 3600 * 1000000
      in files(cache_file \<mapsto> Dict (Some (Naive expires_at)) (Some val)))"

section \<open>Ranking (utils.py, RecommendationEngine.rank\_sermons)\<close>

text \<open>
  \<open>MIN_RELEVANCE_SCORE = 0.7\<close> in config.py is a Python float: the binary64 number
  nearest to 7/10, which is 3152519739159347 / 2^52.
\<close>

definition MIN_RELEVANCE_SCORE :: rat where
  "MIN_RELEVANCE_SCORE = 3152519739159347 / 4503599627370496"

text \<open>
  An element of the list that \<open>json.loads\<close> returns: an integer, a boolean, a finite
  float, one of \<open>NaN\<close>, \<open>Infinity\<close>, \<open>-Infinity\<close> (which \<open>json.loads\<close> accepts), or
  anything else (\<open>null\<close>, a string, an array, an object).
\<close>

datatype jval = JInt int | JBool bool | JFloat rat | JNonFinite | JOther

text \<open>
  What surrounds one call of \<open>rank_sermons\<close>: the MD5 digest in hexadecimal, the
  language model (from the prompt to \<open>response.content.strip()\<close>, or \<open>Raised\<close> when
  the call or the access to the text raises), \<open>json.loads\<close> on a text in brackets
  (\<open>None\<close> when it raises, otherwise the list), and the readings of
  \<open>datetime.now()\<close> inside \<open>cache.get\<close> and inside \<open>cache.set\<close>.
\<close>

record env =
  md5_hexdigest :: "string \<Rightarrow> string"
  llm_invoke :: "string \<Rightarrow> string outcome"
  json_loads :: "string \<Rightarrow> jval list option"
  now_at_get :: int
  now_at_set :: int

fun str_nat :: "nat \<Rightarrow> string" where
  "str_nat n =
     (if n < 10 then [char_of (48 + n)]
      else str_nat (n div 10) @ [char_of (48 + n mod 10)])"

declare str_nat.simps [simp del]

definition str_int :: "int \<Rightarrow> string" where
  "str_int i = (if i < 0 then CHR ''-'' # str_nat (nat (- i)) else str_nat (nat i))"

definition cache_key_of :: "env \<Rightarrow> int \<Rightarrow> string \<Rightarrow> string" where
  "cache_key_of E user_id query =
     ''rank_'' @ str_int user_id @ ''_'' @ md5_hexdigest E query"

definition newline :: string where
  "newline = [CHR 0x0A]"

fun join :: "string \<Rightarrow> string list \<Rightarrow> string" where
  "join sep [] = []"
| "join sep [x] = x"
| "join sep (x # y # ys) = x @ sep @ join sep (y # ys)"

fun sermon_summaries_from :: "nat \<Rightarrow> sermon list \<Rightarrow> string list" where
  "sermon_summaries_from i [] = []"
| "sermon_summaries_from i (sermon # rest) =
     (str_nat i @ ''. '' @ title sermon @ newline @ take 200 (description sermon) @ ''...'')
       # sermon_summaries_from (Suc i) rest"

definition prompt_of :: "string \<Rightarrow> sermon list \<Rightarrow> string" where
  "prompt_of query sermons =
     (let sermon_summaries = sermon_summaries_from 0 sermons
      in ''You are helping recommend sermons from Pastor Tara Akinkuade.'' @ newline
         @ newline
         @ ''User query: '' @ [CHR 0x22] @ query @ [CHR 0x22] @ newline
         @ newline
         @ ''Available sermons:'' @ newline
         @ join newline (take 15 sermon_summaries) @ newline
         @ newline
         @ ''Task: Return a JSON array of sermon indexes (0-''
         @ str_int (min 14 (int (length sermon_summaries) - 1))
         @ '') ranked by relevance to the query.'' @ newline
         @ ''Only include sermons that are truly relevant (relevance score >= 0.7).'' @ newline
         @ ''Return ONLY the JSON array, nothing else.'' @ newline
         @ newline
         @ ''Example: [3, 0, 7, 1]'' @ newline)"

definition startswith :: "string \<Rightarrow> string \<Rightarrow> bool" where
  "startswith s p = (take (length p) s = p)"

definition endswith :: "string \<Rightarrow> string \<Rightarrow> bool" where
  "endswith s p = (length p \<le> length s \<and> drop (length s - length p) s = p)"

text \<open>
  The parse of the response. A text that is not in brackets is replaced by
  \<open>list(range(min(10, len(sermons))))\<close>; a text in brackets on which \<open>json.loads\<close>
  raises ends the \<open>try\<close> block.
\<close>

definition ranked_indexes_of :: "env \<Rightarrow> nat \<Rightarrow> string \<Rightarrow> pyerr + jval list" where
  "ranked_indexes_of E n content =
     (if startswith content ''['' \<and> endswith content '']'' then
        (case json_loads E content of
           None \<Rightarrow> Inl JSONDecodeError
         | Some ranked_indexes \<Rightarrow> Inr ranked_indexes)
      else Inr (map (\<lambda>i. JInt (int i)) [0 ..< min 10 n]))"

text \<open>
  The guard \<open>0 <= idx < len(sermons)\<close> followed by \<open>sermons[idx]\<close>: \<open>Inr None\<close> when
  the guard is false, an error when the comparison or the indexing raises. A boolean is
  an integer in Python (\<open>True\<close> is 1); a float passes the comparison and, when in range,
  is rejected as an index; \<open>NaN\<close> and the infinities fail the guard.
\<close>

fun lookup_index :: "sermon list \<Rightarrow> jval \<Rightarrow> pyerr + sermon option" where
  "lookup_index sermons (JInt i) =
     Inr (if 0 \<le> i \<and> i < int (length sermons) then Some (sermons ! nat i) else None)"
| "lookup_index sermons (JBool b) =
     Inr (if (if b then 1 else 0) < length sermons
          then Some (sermons ! (if b then 1 else 0)) else None)"
| "lookup_index sermons (JFloat r) =
     (if 0 \<le> r \<and> r < of_nat (length sermons) then Inl TypeError else Inr None)"
| "lookup_index sermons JNonFinite = Inr None"
| "lookup_index sermons JOther = Inl TypeError"

text \<open>The loop over \<open>ranked_indexes\<close>, with its two accumulators.\<close>

fun reorder ::
  "sermon list \<Rightarrow> jval list \<Rightarrow> sermon list \<Rightarrow> string set \<Rightarrow> pyerr + sermon list" where
  "reorder sermons [] ranked_sermons seen_links = Inr ranked_sermons"
| "reorder sermons (idx # rest) ranked_sermons seen_links =
     (case lookup_index sermons idx of
        Inl e \<Rightarrow> Inl e
      | Inr None \<Rightarrow> reorder sermons rest ranked_sermons seen_links
      | Inr (Some sermon) \<Rightarrow>
          (let link = message_link sermon
           in if link \<notin> seen_links
              then reorder sermons rest (ranked_sermons @ [sermon]) (insert link seen_links)
              else reorder sermons rest ranked_sermons seen_links))"

text \<open>
  The \<open>try\<close> block of \<open>rank_sermons\<close>: the ranked list and the cache after
  \<open>cache.set\<close>, or the exception that ends the block. Nothing is written before the
  last statement, so an exception leaves the cache as the block found it.
\<close>

definition rank_try ::
  "env \<Rightarrow> sermon list cache_dir \<Rightarrow> string \<Rightarrow> sermon list \<Rightarrow> string
     \<Rightarrow> pyerr + (sermon list \<times> sermon list cache_dir)" where
  "rank_try E files query sermons cache_key =
     (case llm_invoke E (prompt_of query sermons) of
        Raised \<Rightarrow> Inl LLMError
      | Returned content \<Rightarrow>
          (case ranked_indexes_of E (length sermons) content of
             Inl e \<Rightarrow> Inl e
           | Inr ranked_indexes \<Rightarrow>
               (case reorder sermons ranked_indexes [] {} of
                  Inl e \<Rightarrow> Inl e
                | Inr ranked_sermons \<Rightarrow>
                    Inr (ranked_sermons,
                         set_cache (now_at_set E) files cache_key ranked_sermons))))"

text \<open>
  The list comprehension of the \<open>except\<close> branch:
  \<open>[s for s in sermons if s.get('similarity_score', 0) >= config.MIN_RELEVANCE_SCORE]\<close>.
\<close>

definition fallback_by_score :: "sermon list \<Rightarrow> sermon list" where
  "fallback_by_score sermons =
     filter (\<lambda>s. similarity_score s \<ge> MIN_RELEVANCE_SCORE) sermons"

text \<open>
  What one call does besides returning: the calls of \<open>cache.get\<close>, of the language
  model and of \<open>cache.set\<close>, in order.
\<close>

datatype event = CacheGet string | LlmInvoke | CacheSet string

record rank_result =
  ranking :: "sermon list"
  files_after :: "sermon list cache_dir"
  events :: "event list"

text \<open>
  \<open>if cached:\<close> tests the truth value of what \<open>get\<close> returned: \<open>None\<close> and the
  empty list are both false.
\<close>

definition rank_sermons ::
  "env \<Rightarrow> sermon list cache_dir \<Rightarrow> string \<Rightarrow> sermon list \<Rightarrow> int \<Rightarrow> rank_result" where
  "rank_sermons E files query sermons user_id =
     (if sermons = [] then \<lparr>ranking = [], files_after = files, events = []\<rparr>
      else
        (let cache_key = cache_key_of E user_id query;
             (cached, files1) = get (now_at_get E) files cache_key
         in if cached \<noteq> None \<and> cached \<noteq> Some []
            then \<lparr>ranking = the cached, files_after = files1, events = [CacheGet cache_key]\<rparr>
            else
              (case rank_try E files1 query sermons cache_key of
                 Inr (ranked_sermons, files2) \<Rightarrow>
                   \<lparr>ranking = ranked_sermons, files_after = files2,
                    events = [CacheGet cache_key, LlmInvoke, CacheSet cache_key]\<rparr>
               | Inl e \<Rightarrow>
                   \<lparr>ranking = fallback_by_score sermons,
                    files_after = files1,
                    events = [CacheGet cache_key, LlmInvoke]\<rparr>)))"

section \<open>Retrieval (utils.py, RAGEngine.search)\<close>

text \<open>
  A document of the vector store carries a metadata dictionary; the ingestion code
  stores texts in it. \<open>similarity_search_with_score\<close> belongs to the vector-store
  library: it is a parameter here, from the query and \<open>k\<close> to the list of
  (metadata, distance) pairs, or \<open>Raised\<close>.
\<close>

type_synonym metadata = "string \<rightharpoonup> string"

definition metadata_get :: "metadata \<Rightarrow> string \<Rightarrow> string \<Rightarrow> string" where
  "metadata_get md k dflt = (case md k of None \<Rightarrow> dflt | Some v \<Rightarrow> v)"

text \<open>
  Distances and scores are Python floats, that is binary64 numbers, and
  \<open>float(1 - score)\<close> is the binary64 subtraction: the exact difference rounded to
  the nearest binary64 number, ties to the even significand. A finite binary64 number
  is a rational, and rounding is a function on the rationals.

  \<open>exponent x\<close> is the integer \<open>e\<close> with \<open>2^e \<le> |x| < 2^(e+1)\<close>, found from the bit
  lengths of numerator and denominator. The spacing of the binary64 numbers around
  \<open>x\<close> is \<open>2^(e - 52)\<close> (53 significant bits), and \<open>2^(-1074)\<close> below the smallest
  normal number \<open>2^(-1022)\<close>. A result of magnitude \<open>2^1024\<close> or more stands for an
  infinity; the difference \<open>1 - d\<close> of a finite binary64 number \<open>d\<close> never rounds that
  far. Distances that are infinite or \<open>NaN\<close> are outside the model.
\<close>

definition exponent :: "rat \<Rightarrow> int" where
  "exponent x =
     (let (p, q) = quotient_of x; d = bitlen \<bar>p\<bar> - bitlen q
      in if 2 powi d \<le> \<bar>x\<bar> then d else d - 1)"

definition round_half_even :: "rat \<Rightarrow> int" where
  "round_half_even q =
     (let n = \<lfloor>q\<rfloor>; r = q - of_int n
      in if r < 1 / 2 then n else if 1 / 2 < r then n + 1
         else if even n then n else n + 1)"

definition binary64 :: "rat \<Rightarrow> rat" where
  "binary64 x =
     (if x = 0 then 0
      else (let ulp = 2 powi (max (exponent x) (- 1022) - 52)
            in of_int (round_half_even (x / ulp)) * ulp))"

text \<open>The body of the loop of \<open>search\<close>: the dictionary built for one result.\<close>

definition search_hit :: "metadata \<times> rat \<Rightarrow> sermon" where
  "search_hit = (\<lambda>(md, score).
     \<lparr>title = metadata_get md ''title'' ''Untitled'',
      description = metadata_get md ''description'' [],
      message_link = metadata_get md ''message_link'' [],
      image_url = md ''image_url'',
      channel = metadata_get md ''channel'' [],
      date = metadata_get md ''date'' [],
      theme = metadata_get md ''theme'' [],
      similarity_score = binary64 (1 - score)\<rparr>)"

definition search ::
  "(string \<Rightarrow> nat \<Rightarrow> (metadata \<times> rat) list outcome) \<Rightarrow> string \<Rightarrow> nat \<Rightarrow> sermon list" where
  "search similarity_search_with_score query k =
     (case similarity_search_with_score query k of
        Raised \<Rightarrow> []
      | Returned results \<Rightarrow> map search_hit results)"

section \<open>The sermons table (db\_handler.py)\<close>

text \<open>
  A row of the table \<open>sermons\<close>. \<open>id\<close> is \<open>INTEGER PRIMARY KEY AUTOINCREMENT\<close>;
  \<open>title\<close>, \<open>description\<close>, \<open>channel\<close> and \<open>message_link\<close> are \<open>NOT NULL\<close>;
  \<open>message_link\<close> is \<open>UNIQUE\<close>; the two timestamps default to the time of the insert.
  The database is the list of rows in insertion order together with the largest
  row id ever given out, which SQLite keeps in \<open>sqlite_sequence\<close>, and the write lock
  of the file.
\<close>

record row =
  col_id :: nat
  col_title :: string
  col_description :: string
  col_channel :: string
  col_message_link :: string
  col_image_url :: "string option"
  col_date :: "string option"
  col_theme :: "string option"
  col_created_at :: int
  col_updated_at :: int

record database =
  rows :: "row list"
  sqlite_sequence :: nat
  write_lock :: bool

text \<open>
  The argument of \<open>add_sermon\<close> is a dictionary whose values are texts or \<open>None\<close>
  (the ingestion code passes \<open>None\<close> for a missing image or date).
  \<open>dict_get d k dflt\<close> is \<open>d.get(k, dflt)\<close>: the default only replaces a missing key.
\<close>

type_synonym sermon_data = "string \<rightharpoonup> string option"

definition dict_get :: "sermon_data \<Rightarrow> string \<Rightarrow> string option \<Rightarrow> string option" where
  "dict_get d k dflt = (case d k of None \<Rightarrow> dflt | Some v \<Rightarrow> v)"

text \<open>
  \<open>INSERT OR REPLACE\<close>: a \<open>NULL\<close> in a \<open>NOT NULL\<close> column without default aborts
  the statement (\<open>sqlite3.IntegrityError\<close>, caught: the result is \<open>None\<close> and nothing
  is committed); otherwise every row with the same \<open>message_link\<close> is deleted and the
  new row is inserted under the next row id, which \<open>cursor.lastrowid\<close> returns.

  Both \<open>except\<close> branches return without \<open>conn.close()\<close>. The connection of an
  aborted insert is left with its transaction open and keeps the write lock of the
  file; nothing in db\_handler.py releases it (the interpreter does when it reclaims
  the connection, at a time the code does not control), so the model keeps it. While
  the lock is held, the
  \<open>INSERT\<close> of the next call fails with \<open>sqlite3.OperationalError\<close>
  (database is locked), which \<open>except Exception\<close> turns into \<open>None\<close>. Reading
  does not need the write lock.
\<close>

definition add_sermon :: "database \<Rightarrow> int \<Rightarrow> sermon_data \<Rightarrow> nat option \<times> database" where
  "add_sermon db now sermon_data =
     (if write_lock db then (None, db)
      else
        (case (dict_get sermon_data ''title'' (Some []),
               dict_get sermon_data ''description'' (Some []),
               dict_get sermon_data ''channel'' (Some []),
               dict_get sermon_data ''message_link'' (Some [])) of
           (Some t, Some d, Some c, Some l) \<Rightarrow>
             (let sermon_id = sqlite_sequence db + 1;
                  new_row = \<lparr>col_id = sermon_id, col_title = t, col_description = d,
                             col_channel = c, col_message_link = l,
                             col_image_url = dict_get sermon_data ''image_url'' None,
                             col_date = dict_get sermon_data ''date'' None,
                             col_theme = dict_get sermon_data ''theme'' (Some []),
                             col_created_at = now, col_updated_at = now\<rparr>
              in (Some sermon_id,
                  db\<lparr>rows := filter (\<lambda>r. col_message_link r \<noteq> l) (rows db) @ [new_row],
                     sqlite_sequence := sermon_id\<rparr>))
         | _ \<Rightarrow> (None, db\<lparr>write_lock := True\<rparr>)))"

definition get_sermon_by_link :: "database \<Rightarrow> string \<Rightarrow> row option" where
  "get_sermon_by_link db link = find (\<lambda>r. col_message_link r = link) (rows db)"

definition get_sermon_count :: "database \<Rightarrow> nat" where
  "get_sermon_count db = length (rows db)"

section \<open>Sample data\<close>

definition sample_sermon :: "string \<Rightarrow> string \<Rightarrow> rat \<Rightarrow> sermon" where
  "sample_sermon t link score =
     \<lparr>title = t, description = ''A teaching'', message_link = link, image_url = None,
      channel = ''@pst_tara'', date = ''2024-01-01'', theme = ''Faith'',
      similarity_score = score\<rparr>"

definition nine_sermons :: "sermon list" where
  "nine_sermons =
     map (\<lambda>t. sample_sermon t (''https://t.me/pst_tara/'' @ t) (9 / 10))
       [''s1'', ''s2'', ''s3'', ''s4'', ''s5'', ''s6'', ''s7'', ''s8'', ''s9'']"

definition three_sermons :: "sermon list" where
  "three_sermons =
     [sample_sermon ''Faith that moves'' ''https://t.me/pst_tara/10'' (9 / 10),
      sample_sermon ''On giving'' ''https://t.me/pst_tara/11'' (1 / 2),
      sample_sermon ''Walking by faith'' ''https://t.me/pst_tara/12'' (4 / 5)]"

text \<open>Two chunks of one uploaded document: the text splitter gives both the same metadata.\<close>

definition two_chunks :: "sermon list" where
  "two_chunks =
     [sample_sermon ''Notes on prayer'' ''materials/prayer.txt'' (9 / 10),
      sample_sermon ''Notes on prayer'' ''materials/prayer.txt'' (4 / 5)]"

text \<open>A vector store that returns one document at distance 1.5.\<close>

definition far_store :: "string \<Rightarrow> nat \<Rightarrow> (metadata \<times> rat) list outcome" where
  "far_store query k = Returned [([''title'' \<mapsto> ''On giving''], 3 / 2)]"

text \<open>
  A vector store that returns one document at the distance written \<open>0.1\<close> in
  Python, the binary64 number 3602879701896397 / 2^55.
\<close>

definition near_store :: "string \<Rightarrow> nat \<Rightarrow> (metadata \<times> rat) list outcome" where
  "near_store query k =
     Returned [([''title'' \<mapsto> ''On giving''], 3602879701896397 / 36028797018963968)]"

definition empty_database :: database where
  "empty_database = \<lparr>rows = [], sqlite_sequence = 0, write_lock = False\<rparr>"

text \<open>
  An environment whose language model answers every prompt with the same outcome and
  whose \<open>json.loads\<close> knows the texts \<open>[2, 0]\<close>, \<open>[0, 7]\<close>, \<open>[]\<close> and
  \<open>[1.0]\<close>.
\<close>

definition sample_env :: "string outcome \<Rightarrow> env" where
  "sample_env answer =
     \<lparr>md5_hexdigest = (\<lambda>q. ''5d41402abc4b2a76b9719d911017c592''),
      llm_invoke = (\<lambda>p. answer),
      json_loads = (\<lambda>c. if c = ''[2, 0]'' then Some [JInt 2, JInt 0]
                         else if c = ''[0, 7]'' then Some [JInt 0, JInt 7]
                         else if c = ''[]'' then Some []
                         else if c = ''[1.0]'' then Some [JFloat 1]
                         else None),
      now_at_get = 1000, now_at_set = 2000\<rparr>"

definition sample_data :: "string \<Rightarrow> string \<Rightarrow> sermon_data" where
  "sample_data t link =
     [''title'' \<mapsto> Some t, ''description'' \<mapsto> Some ''A teaching'',
      ''channel'' \<mapsto> Some ''@pst_tara'', ''message_link'' \<mapsto> Some link,
      ''image_url'' \<mapsto> None, ''date'' \<mapsto> Some ''2024-01-01'', ''theme'' \<mapsto> Some ''Faith'']"

section \<open>Verified properties\<close>

subsection \<open>Pagination\<close>

text \<open>
  Claim C9. A user without a session who asks for more gets the reply "search first":
  not the reply "no more results" and not a batch, empty or otherwise, and the
  dictionary of sessions stays as it was.
\<close>

theorem handle_more_no_session:
  assumes "user_sessions user_id = None"
  shows "handle_more user_sessions user_id = (SearchFirst, user_sessions)
         \<and> fst (handle_more user_sessions user_id) \<noteq> NoMore
         \<and> fst (handle_more user_sessions user_id) \<noteq> Batch batch still_more"
  using assms by (simp add: handle_more_def)

theorem handle_more_no_session_witness:
  "handle_more Map.empty 42 = (SearchFirst, Map.empty)
   \<and> fst (handle_more Map.empty 42) \<noteq> NoMore
   \<and> fst (handle_more Map.empty 42) \<noteq> Batch [] False"
  using handle_more_no_session [of Map.empty 42 "[]" False] by simp

text \<open>
  Claim C3, as stated, says that the cursor advances by the number of sermons sent.
  With nine sermons and the cursor at 5, four sermons are sent and the cursor becomes
  10, not 9.
\<close>

theorem handle_more_cursor_counterexample:
  "fst (handle_more [7 \<mapsto> \<lparr>session_sermons = nine_sermons, session_index = 5\<rparr>] 7)
     = Batch (drop 5 nine_sermons) False
   \<and> length (drop 5 nine_sermons) = 4
   \<and> map_option session_index
       (snd (handle_more [7 \<mapsto> \<lparr>session_sermons = nine_sermons, session_index = 5\<rparr>] 7) 7)
     = Some 10"
  by (simp add: handle_more_def slice_def nine_sermons_def)

text \<open>
  Claim C3, amended. For a session with \<open>r\<close> sermons and cursor \<open>c\<close>, a request for
  more reads the page of at most five sermons that starts at \<open>c\<close>. When the page is
  empty (exactly when \<open>r \<le> c\<close>) the reply is "no more results" and the sessions are
  unchanged. Otherwise the page, of \<open>min 5 (r - c)\<close> sermons, is sent and the cursor
  becomes \<open>c + 5\<close>, whatever the length of the page.
\<close>

theorem handle_more_page:
  assumes "user_sessions user_id = Some s"
  shows "handle_more user_sessions user_id =
           (if take 5 (drop (session_index s) (session_sermons s)) = []
            then (NoMore, user_sessions)
            else (Batch (take 5 (drop (session_index s) (session_sermons s)))
                        (session_index s + 5 < length (session_sermons s)),
                  user_sessions(user_id \<mapsto> s\<lparr>session_index := session_index s + 5\<rparr>)))
         \<and> length (take 5 (drop (session_index s) (session_sermons s)))
             = min 5 (length (session_sermons s) - session_index s)
         \<and> (take 5 (drop (session_index s) (session_sermons s)) = []
              \<longleftrightarrow> length (session_sermons s) \<le> session_index s)"
  using assms by (auto simp add: handle_more_def slice_def Let_def)

theorem handle_more_page_witness:
  "handle_more [7 \<mapsto> \<lparr>session_sermons = nine_sermons, session_index = 5\<rparr>] 7 =
     (Batch (drop 5 nine_sermons) False,
      [7 \<mapsto> \<lparr>session_sermons = nine_sermons, session_index = 10\<rparr>])"
  using handle_more_page [of "[7 \<mapsto> \<lparr>session_sermons = nine_sermons, session_index = 5\<rparr>]" 7
      "\<lparr>session_sermons = nine_sermons, session_index = 5\<rparr>"]
  by (simp add: nine_sermons_def)

subsection \<open>The cache\<close>

text \<open>What \<open>get\<close> returns and leaves behind, case by case.\<close>

lemma get_eq:
  "get now files key =
     (case files (cache_file_of key) of
        Some (Dict (Some (Naive t)) v) \<Rightarrow>
          if now > t then (None, files(cache_file_of key := None)) else (v, files)
      | _ \<Rightarrow> (None, files))"
  by (simp add: get_def get_try_def Let_def
           split: option.splits expires.splits cache_file.splits)

lemma get_files_cases:
  "snd (get now files key) = files
   \<or> (\<exists>t v. files (cache_file_of key) = Some (Dict (Some (Naive t)) v) \<and> t < now
            \<and> snd (get now files key) = files(cache_file_of key := None))"
  by (simp add: get_eq split: option.splits expires.splits cache_file.splits)

text \<open>
  Claim C6. When the entry stored under a key has an expiry time before the current
  time, \<open>get\<close> returns \<open>None\<close> and removes the file, so that a second \<open>get\<close> for
  the key, at any time and with no write in between, returns \<open>None\<close> as well and
  finds nothing to remove. The expiry time is a naive timestamp, as \<open>set\<close> writes it.
\<close>

theorem get_expired_entry_removed:
  assumes "files (cache_file_of key) = Some (Dict (Some (Naive expires_at)) v)"
    and "expires_at < now"
  shows "get now files key = (None, files(cache_file_of key := None))
         \<and> (files(cache_file_of key := None)) (cache_file_of key) = None
         \<and> get later (snd (get now files key)) key = (None, snd (get now files key))"
  using assms by (simp add: get_def get_try_def)

theorem get_expired_entry_removed_witness:
  "get 1000 [cache_file_of ''k'' \<mapsto> Dict (Some (Naive 999)) (Some nine_sermons)] ''k''
     = (None, Map.empty)
   \<and> get 1001 (snd (get 1000 [cache_file_of ''k'' \<mapsto> Dict (Some (Naive 999)) (Some nine_sermons)] ''k'')) ''k''
     = (None, Map.empty)"
  using get_expired_entry_removed
    [of "[cache_file_of ''k'' \<mapsto> Dict (Some (Naive 999)) (Some nine_sermons)]" "''k''" 999
        "Some nine_sermons" 1000 1001]
  by (simp add: get_def)

text \<open>
  Claim C10. \<open>get\<close> returns \<open>None\<close> and does not raise, whether the file is missing,
  is not JSON, is JSON but not an object, lacks \<open>'expires_at'\<close>, lacks \<open>'value'\<close>, or
  holds a timestamp that \<open>fromisoformat\<close> rejects; and whenever the \<open>try\<close> block
  raises, with whatever exception, \<open>get\<close> returns \<open>None\<close> and leaves the files alone.
\<close>

theorem get_malformed_returns_none:
  assumes "files (cache_file_of key) = None
           \<or> files (cache_file_of key) = Some NotJson
           \<or> files (cache_file_of key) = Some NotDict
           \<or> files (cache_file_of key) = Some (Dict None v)
           \<or> files (cache_file_of key) = Some (Dict e None)
           \<or> files (cache_file_of key) = Some (Dict (Some NotIso) v)"
  shows "fst (get now files key) = None
         \<and> (get_try now files (cache_file_of key) = Inl err \<longrightarrow> get now files key = (None, files))"
  using assms
  by (auto simp add: get_def get_try_def split: option.splits expires.splits cache_file.splits)

theorem get_malformed_returns_none_witness:
  "fst (get 1000 [cache_file_of ''k'' \<mapsto> (Dict (Some NotIso) (Some nine_sermons))] ''k'') = None
   \<and> get 1000 [cache_file_of ''k'' \<mapsto> (Dict (Some NotIso) (Some nine_sermons))] ''k''
       = (None, [cache_file_of ''k'' \<mapsto> (Dict (Some NotIso) (Some nine_sermons))])"
  using get_malformed_returns_none
    [of "[cache_file_of ''k'' \<mapsto> (Dict (Some NotIso) (Some nine_sermons))]" "''k''"
        "Some nine_sermons" "Some NotIso" 1000 ValueError]
  by (simp add: get_try_def)

subsection \<open>Ranking\<close>

text \<open>
  A call with candidates that finds no usable cache entry runs the \<open>try\<close> block on
  the files that \<open>get\<close> left.
\<close>

lemma rank_sermons_miss:
  assumes "sermons \<noteq> []"
    and "fst (get (now_at_get E) files (cache_key_of E user_id query)) = None
         \<or> fst (get (now_at_get E) files (cache_key_of E user_id query)) = Some []"
  shows "rank_sermons E files query sermons user_id =
           (case rank_try E (snd (get (now_at_get E) files (cache_key_of E user_id query)))
                   query sermons (cache_key_of E user_id query) of
              Inr (ranked_sermons, files2) \<Rightarrow>
                \<lparr>ranking = ranked_sermons, files_after = files2,
                 events = [CacheGet (cache_key_of E user_id query), LlmInvoke,
                           CacheSet (cache_key_of E user_id query)]\<rparr>
            | Inl e \<Rightarrow>
                \<lparr>ranking = fallback_by_score sermons,
                 files_after = snd (get (now_at_get E) files (cache_key_of E user_id query)),
                 events = [CacheGet (cache_key_of E user_id query), LlmInvoke]\<rparr>)"
proof -
  obtain cached files1
    where g: "get (now_at_get E) files (cache_key_of E user_id query) = (cached, files1)"
    by (cases "get (now_at_get E) files (cache_key_of E user_id query)")
  from assms(2) g have "cached = None \<or> cached = Some []" by simp
  moreover from g
  have "snd (get (now_at_get E) files (cache_key_of E user_id query)) = files1" by simp
  ultimately show ?thesis
    unfolding \<open>snd (get (now_at_get E) files (cache_key_of E user_id query)) = files1\<close>
    using assms(1) g by (auto simp add: rank_sermons_def Let_def)
qed

text \<open>The loop raises as soon as the list holds an element that is no number.\<close>

lemma reorder_raises_on_other:
  "JOther \<in> set js \<Longrightarrow> \<exists>e. reorder sermons js acc seen = Inl e"
proof (induction js arbitrary: acc seen)
  case Nil
  then show ?case by simp
next
  case (Cons idx rest)
  show ?case
  proof (cases "idx = JOther")
    case True
    then show ?thesis by simp
  next
    case False
    with Cons.prems have "JOther \<in> set rest" by simp
    then have "\<And>acc seen. \<exists>e. reorder sermons rest acc seen = Inl e"
      using Cons.IH by blast
    then show ?thesis
      by (simp add: Let_def split: sum.splits option.splits)
  qed
qed

lemma reorder_skips:
  "reorder sermons (filter (\<lambda>idx. lookup_index sermons idx \<noteq> Inr None) js) acc seen
     = reorder sermons js acc seen"
  by (induction js arbitrary: acc seen) (auto simp add: Let_def split: sum.splits option.splits)

text \<open>On a list of integers the loop never raises, and indexes out of range are passed over.\<close>

lemma reorder_ints_total:
  "\<exists>out. reorder sermons (map JInt ixs) acc seen = Inr out"
  by (induction ixs arbitrary: acc seen) (auto simp add: Let_def)

lemma reorder_ints_skip:
  "reorder sermons (map JInt (filter (\<lambda>i. 0 \<le> i \<and> i < int (length sermons)) ixs)) acc seen
     = reorder sermons (map JInt ixs) acc seen"
  by (induction ixs arbitrary: acc seen) (auto simp add: Let_def)

lemma default_order_ints:
  "map (\<lambda>i. JInt (int i)) ns = map JInt (map int ns)"
  by simp

lemma rank_try_raises:
  assumes "llm_invoke E (prompt_of query sermons) = Raised
           \<or> (llm_invoke E (prompt_of query sermons) = Returned content
               \<and> startswith content ''['' \<and> endswith content '']''
               \<and> (json_loads E content = None
                    \<or> (json_loads E content = Some js \<and> JOther \<in> set js)))"
  shows "\<exists>e. rank_try E files query sermons key = Inl e"
  using assms reorder_raises_on_other [of js sermons "[]" "{}"]
  by (auto simp add: rank_try_def ranked_indexes_of_def split: sum.splits)

lemma rank_try_unbracketed:
  assumes "llm_invoke E (prompt_of query sermons) = Returned content"
    and "\<not> (startswith content ''['' \<and> endswith content '']'')"
  shows "\<exists>out. reorder sermons (map (\<lambda>i. JInt (int i)) [0 ..< min 10 (length sermons)]) [] {} = Inr out
           \<and> rank_try E files query sermons key = Inr (out, set_cache (now_at_set E) files key out)"
proof -
  obtain out where
    "reorder sermons (map JInt (map int [0 ..< min 10 (length sermons)])) [] {} = Inr out"
    using reorder_ints_total by blast
  then have "reorder sermons (map (\<lambda>i. JInt (int i)) [0 ..< min 10 (length sermons)]) [] {} = Inr out"
    by (simp only: default_order_ints)
  with assms show ?thesis
    by (auto simp add: rank_try_def ranked_indexes_of_def)
qed

text \<open>
  Claim C1, as stated, sends a response that is not a JSON array, and a response with
  an index out of range, to the filter by score. For the three candidates with scores
  0.9, 0.5 and 0.8 the filter keeps the first and the third; the response
  \<open>not json\<close> returns all three, and the response \<open>[0, 7]\<close> returns the first alone.
\<close>

theorem rank_sermons_fallback_counterexample:
  "ranking (rank_sermons (sample_env (Returned ''not json'')) Map.empty ''faith'' three_sermons 42)
     = three_sermons
   \<and> ranking (rank_sermons (sample_env (Returned ''[0, 7]'')) Map.empty ''faith'' three_sermons 42)
     = [three_sermons ! 0]
   \<and> fallback_by_score three_sermons = [three_sermons ! 0, three_sermons ! 2]
   \<and> three_sermons \<noteq> [three_sermons ! 0, three_sermons ! 2]
   \<and> [three_sermons ! 0] \<noteq> [three_sermons ! 0, three_sermons ! 2]"
  by (simp add: rank_sermons_def get_def rank_try_def ranked_indexes_of_def sample_env_def
        startswith_def endswith_def three_sermons_def sample_sermon_def fallback_by_score_def
        MIN_RELEVANCE_SCORE_def Let_def set_cache_def upt_conv_Cons)

text \<open>
  Claim C1, amended. For a list of candidates that is not empty and a cache without a
  usable entry under the key: when the call of the language model raises, or the
  response is in brackets and \<open>json.loads\<close> rejects it, or the parsed list holds an
  element that is no number, \<open>rank_sermons\<close> returns exactly the candidates whose
  score is at least \<open>MIN_RELEVANCE_SCORE\<close>, in the order of retrieval. A response that
  is not in brackets is replaced by the indexes \<open>0, ..., min(10, n) - 1\<close>, which go
  through the re-ordering; in a list of integers the indexes out of range are skipped.
\<close>

theorem rank_sermons_fallback:
  assumes "sermons \<noteq> []"
    and "fst (get (now_at_get E) files (cache_key_of E user_id query)) = None
         \<or> fst (get (now_at_get E) files (cache_key_of E user_id query)) = Some []"
  shows "(llm_invoke E (prompt_of query sermons) = Raised
           \<or> (llm_invoke E (prompt_of query sermons) = Returned content
               \<and> startswith content ''['' \<and> endswith content '']''
               \<and> (json_loads E content = None
                    \<or> (json_loads E content = Some js \<and> JOther \<in> set js)))
          \<longrightarrow> ranking (rank_sermons E files query sermons user_id) = fallback_by_score sermons)
       \<and> (llm_invoke E (prompt_of query sermons) = Returned content
           \<and> \<not> (startswith content ''['' \<and> endswith content '']'')
          \<longrightarrow> Inr (ranking (rank_sermons E files query sermons user_id))
                = reorder sermons (map (\<lambda>i. JInt (int i)) [0 ..< min 10 (length sermons)]) [] {})
       \<and> (llm_invoke E (prompt_of query sermons) = Returned content
           \<and> startswith content ''['' \<and> endswith content '']''
           \<and> json_loads E content = Some (map JInt ixs)
          \<longrightarrow> Inr (ranking (rank_sermons E files query sermons user_id))
                = reorder sermons
                    (map JInt (filter (\<lambda>i. 0 \<le> i \<and> i < int (length sermons)) ixs)) [] {})"
proof (intro conjI impI)
  assume "llm_invoke E (prompt_of query sermons) = Raised
           \<or> (llm_invoke E (prompt_of query sermons) = Returned content
               \<and> startswith content ''['' \<and> endswith content '']''
               \<and> (json_loads E content = None
                    \<or> (json_loads E content = Some js \<and> JOther \<in> set js)))"
  then obtain e where
    "rank_try E (snd (get (now_at_get E) files (cache_key_of E user_id query)))
       query sermons (cache_key_of E user_id query) = Inl e"
    using rank_try_raises by blast
  then show "ranking (rank_sermons E files query sermons user_id) = fallback_by_score sermons"
    by (simp add: rank_sermons_miss [OF assms])
next
  assume "llm_invoke E (prompt_of query sermons) = Returned content
           \<and> \<not> (startswith content ''['' \<and> endswith content '']'')"
  then obtain out where
    "reorder sermons (map (\<lambda>i. JInt (int i)) [0 ..< min 10 (length sermons)]) [] {} = Inr out"
    "rank_try E (snd (get (now_at_get E) files (cache_key_of E user_id query)))
       query sermons (cache_key_of E user_id query)
     = Inr (out, set_cache (now_at_set E)
                   (snd (get (now_at_get E) files (cache_key_of E user_id query)))
                   (cache_key_of E user_id query) out)"
    using rank_try_unbracketed by blast
  then show "Inr (ranking (rank_sermons E files query sermons user_id))
                = reorder sermons (map (\<lambda>i. JInt (int i)) [0 ..< min 10 (length sermons)]) [] {}"
    by (simp add: rank_sermons_miss [OF assms])
next
  assume a: "llm_invoke E (prompt_of query sermons) = Returned content
           \<and> startswith content ''['' \<and> endswith content '']''
           \<and> json_loads E content = Some (map JInt ixs)"
  obtain out where out: "reorder sermons (map JInt ixs) [] {} = Inr out"
    using reorder_ints_total by blast
  with a have
    "rank_try E (snd (get (now_at_get E) files (cache_key_of E user_id query)))
       query sermons (cache_key_of E user_id query)
     = Inr (out, set_cache (now_at_set E)
                   (snd (get (now_at_get E) files (cache_key_of E user_id query)))
                   (cache_key_of E user_id query) out)"
    by (simp add: rank_try_def ranked_indexes_of_def)
  then have "ranking (rank_sermons E files query sermons user_id) = out"
    by (simp add: rank_sermons_miss [OF assms])
  with out show "Inr (ranking (rank_sermons E files query sermons user_id))
                = reorder sermons
                    (map JInt (filter (\<lambda>i. 0 \<le> i \<and> i < int (length sermons)) ixs)) [] {}"
    by (simp only: reorder_ints_skip)
qed

theorem rank_sermons_fallback_witness:
  "ranking (rank_sermons (sample_env Raised) Map.empty ''faith'' three_sermons 42)
     = [three_sermons ! 0, three_sermons ! 2]"
proof -
  have ne: "three_sermons \<noteq> []" by (simp add: three_sermons_def)
  have miss: "fst (get (now_at_get (sample_env Raised)) Map.empty
                    (cache_key_of (sample_env Raised) 42 ''faith'')) = None
              \<or> fst (get (now_at_get (sample_env Raised)) Map.empty
                    (cache_key_of (sample_env Raised) 42 ''faith'')) = Some []"
    by (simp add: get_def)
  have trig: "llm_invoke (sample_env Raised) (prompt_of ''faith'' three_sermons) = Raised"
    by (simp add: sample_env_def)
  have fb: "fallback_by_score three_sermons = [three_sermons ! 0, three_sermons ! 2]"
    by (simp add: three_sermons_def sample_sermon_def fallback_by_score_def MIN_RELEVANCE_SCORE_def)
  show ?thesis
    using rank_sermons_fallback [OF ne miss, of "''x''" "[]" "[]"] trig fb by simp
qed

lemma rank_try_completes:
  assumes "llm_invoke E (prompt_of query sermons) = Returned content"
    and "ranked_indexes_of E (length sermons) content = Inr js"
    and "reorder sermons js [] {} = Inr out"
  shows "rank_try E files query sermons key = Inr (out, set_cache (now_at_set E) files key out)"
  using assms by (simp add: rank_try_def)

text \<open>The sample environment, field by field, and the key it computes for user 42.\<close>

lemma sample_cache_key:
  "cache_key_of (sample_env answer) 42 query = ''rank_42_5d41402abc4b2a76b9719d911017c592''"
  by code_simp

lemma sample_env_simps:
  "llm_invoke (sample_env answer) p = answer"
  "now_at_get (sample_env answer) = 1000"
  "now_at_set (sample_env answer) = 2000"
  "json_loads (sample_env answer) ''[2, 0]'' = Some [JInt 2, JInt 0]"
  "json_loads (sample_env answer) ''[0, 7]'' = Some [JInt 0, JInt 7]"
  "json_loads (sample_env answer) ''[1.0]'' = Some [JFloat 1]"
  by (simp_all add: sample_env_def)

text \<open>
  The loop raises as soon as it meets an element on which the guard or the indexing
  raises; the \<open>try\<close> block completes exactly when the model returns, the parse
  gives a list and the loop runs through it.
\<close>

lemma reorder_raises_at:
  "idx \<in> set js \<Longrightarrow> lookup_index sermons idx = Inl e
     \<Longrightarrow> \<exists>e'. reorder sermons js acc seen = Inl e'"
proof (induction js arbitrary: acc seen)
  case Nil
  then show ?case by simp
next
  case (Cons j rest)
  show ?case
  proof (cases "lookup_index sermons j")
    case (Inl e')
    then show ?thesis by simp
  next
    case (Inr found)
    with Cons.prems have "idx \<in> set rest" by auto
    then have "\<And>acc seen. \<exists>e'. reorder sermons rest acc seen = Inl e'"
      using Cons.IH Cons.prems(2) by blast
    with Inr show ?thesis
      by (simp add: Let_def split: option.splits)
  qed
qed

lemma rank_try_completes_iff:
  "(\<exists>out files2. rank_try E files query sermons key = Inr (out, files2))
     \<longleftrightarrow> (\<exists>content js out.
            llm_invoke E (prompt_of query sermons) = Returned content
          \<and> ranked_indexes_of E (length sermons) content = Inr js
          \<and> reorder sermons js [] {} = Inr out)"
  by (auto simp add: rank_try_def split: outcome.splits sum.splits)

lemma rank_try_raises_on_element:
  assumes "llm_invoke E (prompt_of query sermons) = Returned content"
    and "startswith content ''['' \<and> endswith content '']''"
    and "json_loads E content = Some js"
    and "JOther \<in> set js
         \<or> (JFloat x \<in> set js \<and> 0 \<le> x \<and> x < of_nat (length sermons))"
  shows "\<exists>e. rank_try E files query sermons key = Inl e"
proof -
  from assms(4) obtain idx e where "idx \<in> set js" "lookup_index sermons idx = Inl e"
    by (metis lookup_index.simps(3) lookup_index.simps(5))
  then obtain e' where "reorder sermons js [] {} = Inl e'"
    using reorder_raises_at by blast
  with assms(1-3) show ?thesis
    by (simp add: rank_try_def ranked_indexes_of_def)
qed

text \<open>What \<open>set\<close> writes: the value, and the expiry six hours after the write.\<close>

lemma set_cache_entry:
  "set_cache now files key val =
     files(cache_file_of key \<mapsto> Dict (Some (Naive (now + 21600000000))) (Some val))"
  by (simp add: set_cache_def CACHE_DURATION_HOURS_def Let_def)

text \<open>
  Claim C2, as stated, has no cache write whenever the response is not parseable as a
  JSON array, and leaves the cache unchanged on the fallback path. The response
  \<open>not json\<close> is followed by \<open>cache.set\<close>, which stores the three candidates under
  the key; and when the model raises while an expired entry lies under the key, the
  entry is gone afterwards.
\<close>

theorem rank_sermons_cache_write_counterexample:
  "events (rank_sermons (sample_env (Returned ''not json'')) Map.empty ''faith'' three_sermons 42)
     = [CacheGet ''rank_42_5d41402abc4b2a76b9719d911017c592'', LlmInvoke,
        CacheSet ''rank_42_5d41402abc4b2a76b9719d911017c592'']
   \<and> files_after
        (rank_sermons (sample_env (Returned ''not json'')) Map.empty ''faith'' three_sermons 42)
        ''cache/rank_42_5d41402abc4b2a76b9719d911017c592.json''
     = Some (Dict (Some (Naive 21600002000)) (Some three_sermons))
   \<and> files_after
        (rank_sermons (sample_env Raised)
           [''cache/rank_42_5d41402abc4b2a76b9719d911017c592.json''
              \<mapsto> Dict (Some (Naive 999)) (Some two_chunks)]
           ''faith'' three_sermons 42)
     = Map.empty"
  by (simp add: rank_sermons_def get_def get_try_def rank_try_def ranked_indexes_of_def
        sample_cache_key startswith_def endswith_def three_sermons_def sample_sermon_def
        Let_def set_cache_def upt_conv_Cons cache_file_of_def CACHE_PATH_def
        CACHE_DURATION_HOURS_def sample_env_simps)

text \<open>
  Claim C2, amended. For a list of candidates that is not empty and a cache without a
  usable entry under the key, \<open>cache.set\<close> is called exactly when the \<open>try\<close>
  block completes: the model returns, the response is parsed or replaced by the
  default order, and the loop does not raise. Then the ranked list is returned, and
  the file under the key holds it with the expiry six hours after the write; a
  response that is not in brackets is such a case. In every other case the list
  filtered by score is returned, \<open>cache.set\<close> is not called, and the files are as
  \<open>cache.get\<close> left them: unchanged, or without the expired entry that \<open>get\<close>
  removed. The other cases include: the model call raises, \<open>json.loads\<close> rejects a
  response in brackets, the parsed list holds an element that is no number, or it
  holds a float within the range of the indexes.
\<close>

theorem rank_sermons_cache_write:
  assumes "sermons \<noteq> []"
    and "fst (get (now_at_get E) files (cache_key_of E user_id query)) = None
         \<or> fst (get (now_at_get E) files (cache_key_of E user_id query)) = Some []"
  shows "(CacheSet (cache_key_of E user_id query)
            \<in> set (events (rank_sermons E files query sermons user_id))
          \<longleftrightarrow> (\<exists>content js out.
                 llm_invoke E (prompt_of query sermons) = Returned content
               \<and> ranked_indexes_of E (length sermons) content = Inr js
               \<and> reorder sermons js [] {} = Inr out))
       \<and> (llm_invoke E (prompt_of query sermons) = Returned content
           \<and> ranked_indexes_of E (length sermons) content = Inr js
           \<and> reorder sermons js [] {} = Inr out
          \<longrightarrow> ranking (rank_sermons E files query sermons user_id) = out
              \<and> events (rank_sermons E files query sermons user_id)
                  = [CacheGet (cache_key_of E user_id query), LlmInvoke,
                     CacheSet (cache_key_of E user_id query)]
              \<and> files_after (rank_sermons E files query sermons user_id)
                  = (snd (get (now_at_get E) files (cache_key_of E user_id query)))
                      (cache_file_of (cache_key_of E user_id query)
                         \<mapsto> Dict (Some (Naive (now_at_set E + 21600000000))) (Some out)))
       \<and> (CacheSet (cache_key_of E user_id query)
            \<notin> set (events (rank_sermons E files query sermons user_id))
          \<longrightarrow> ranking (rank_sermons E files query sermons user_id) = fallback_by_score sermons
              \<and> events (rank_sermons E files query sermons user_id)
                  = [CacheGet (cache_key_of E user_id query), LlmInvoke]
              \<and> files_after (rank_sermons E files query sermons user_id)
                  = snd (get (now_at_get E) files (cache_key_of E user_id query)))
       \<and> (llm_invoke E (prompt_of query sermons) = Raised
           \<or> (llm_invoke E (prompt_of query sermons) = Returned content
               \<and> startswith content ''['' \<and> endswith content '']''
               \<and> (json_loads E content = None
                    \<or> (json_loads E content = Some js
                        \<and> (JOther \<in> set js
                            \<or> (JFloat x \<in> set js \<and> 0 \<le> x \<and> x < of_nat (length sermons))))))
          \<longrightarrow> CacheSet (cache_key_of E user_id query)
                \<notin> set (events (rank_sermons E files query sermons user_id)))
       \<and> (llm_invoke E (prompt_of query sermons) = Returned content
           \<and> \<not> (startswith content ''['' \<and> endswith content '']'')
          \<longrightarrow> CacheSet (cache_key_of E user_id query)
                \<in> set (events (rank_sermons E files query sermons user_id)))
       \<and> (snd (get (now_at_get E) files (cache_key_of E user_id query)) = files
           \<or> (\<exists>t v. files (cache_file_of (cache_key_of E user_id query))
                        = Some (Dict (Some (Naive t)) v)
                    \<and> t < now_at_get E
                    \<and> snd (get (now_at_get E) files (cache_key_of E user_id query))
                        = files(cache_file_of (cache_key_of E user_id query) := None)))"
proof -
  define k where "k = cache_key_of E user_id query"
  define files1 where "files1 = snd (get (now_at_get E) files k)"
  define r where "r = rank_sermons E files query sermons user_id"
  have r_eq: "r = (case rank_try E files1 query sermons k of
              Inr (ranked_sermons, files2) \<Rightarrow>
                \<lparr>ranking = ranked_sermons, files_after = files2,
                 events = [CacheGet k, LlmInvoke, CacheSet k]\<rparr>
            | Inl e \<Rightarrow>
                \<lparr>ranking = fallback_by_score sermons, files_after = files1,
                 events = [CacheGet k, LlmInvoke]\<rparr>)"
    unfolding r_def files1_def k_def by (rule rank_sermons_miss [OF assms])
  have raised: "events r = [CacheGet k, LlmInvoke] \<and> ranking r = fallback_by_score sermons
                  \<and> files_after r = files1"
    if "rank_try E files1 query sermons k = Inl e" for e
    using that by (simp add: r_eq)
  have completed: "events r = [CacheGet k, LlmInvoke, CacheSet k] \<and> ranking r = out
                  \<and> files_after r
                      = files1(cache_file_of k \<mapsto> Dict (Some (Naive (now_at_set E + 21600000000))) (Some out))"
    if "llm_invoke E (prompt_of query sermons) = Returned content"
       "ranked_indexes_of E (length sermons) content = Inr js"
       "reorder sermons js [] {} = Inr out" for content js out
    using rank_try_completes [OF that, of files1 k] by (simp add: r_eq set_cache_entry)
  have iff: "CacheSet k \<in> set (events r)
          \<longleftrightarrow> (\<exists>content js out.
                 llm_invoke E (prompt_of query sermons) = Returned content
               \<and> ranked_indexes_of E (length sermons) content = Inr js
               \<and> reorder sermons js [] {} = Inr out)"
  proof (cases "rank_try E files1 query sermons k")
    case (Inl e)
    then have "\<not> (\<exists>out files2. rank_try E files1 query sermons k = Inr (out, files2))" by simp
    then have "\<not> (\<exists>content js out.
                 llm_invoke E (prompt_of query sermons) = Returned content
               \<and> ranked_indexes_of E (length sermons) content = Inr js
               \<and> reorder sermons js [] {} = Inr out)"
      using rank_try_completes_iff [of E files1 query sermons k] by simp
    moreover have "CacheSet k \<notin> set (events r)" using raised [OF Inl] by simp
    ultimately show ?thesis by blast
  next
    case (Inr p)
    then have "\<exists>out files2. rank_try E files1 query sermons k = Inr (out, files2)"
      by (cases p) simp
    then have c: "\<exists>content js out.
                 llm_invoke E (prompt_of query sermons) = Returned content
               \<and> ranked_indexes_of E (length sermons) content = Inr js
               \<and> reorder sermons js [] {} = Inr out"
      using rank_try_completes_iff [of E files1 query sermons k] by simp
    then have "CacheSet k \<in> set (events r)" using completed by fastforce
    with c show ?thesis by blast
  qed
  have not_written: "ranking r = fallback_by_score sermons
              \<and> events r = [CacheGet k, LlmInvoke] \<and> files_after r = files1"
    if "CacheSet k \<notin> set (events r)"
  proof (cases "rank_try E files1 query sermons k")
    case (Inl e)
    then show ?thesis using raised by blast
  next
    case (Inr p)
    then have "CacheSet k \<in> set (events r)" by (cases p) (simp add: r_eq)
    with that show ?thesis by simp
  qed
  have triggers: "CacheSet k \<notin> set (events r)"
    if "llm_invoke E (prompt_of query sermons) = Raised
           \<or> (llm_invoke E (prompt_of query sermons) = Returned content
               \<and> startswith content ''['' \<and> endswith content '']''
               \<and> (json_loads E content = None
                    \<or> (json_loads E content = Some js
                        \<and> (JOther \<in> set js
                            \<or> (JFloat x \<in> set js \<and> 0 \<le> x \<and> x < of_nat (length sermons))))))"
  proof -
    from that have "\<exists>e. rank_try E files1 query sermons k = Inl e"
      using rank_try_raises [of E query sermons content js files1 k]
        rank_try_raises_on_element [of E query sermons content js x files1 k]
      by blast
    then show ?thesis using raised by fastforce
  qed
  have unbracketed: "CacheSet k \<in> set (events r)"
    if "llm_invoke E (prompt_of query sermons) = Returned content
           \<and> \<not> (startswith content ''['' \<and> endswith content '']'')"
  proof -
    from that obtain out where
      "rank_try E files1 query sermons k = Inr (out, set_cache (now_at_set E) files1 k out)"
      using rank_try_unbracketed by blast
    then show ?thesis by (simp add: r_eq)
  qed
  have evicted: "files1 = files
           \<or> (\<exists>t v. files (cache_file_of k) = Some (Dict (Some (Naive t)) v)
                    \<and> t < now_at_get E
                    \<and> files1 = files(cache_file_of k := None))"
    unfolding files1_def by (rule get_files_cases)
  from iff completed not_written triggers unbracketed evicted show ?thesis
    unfolding r_def files1_def k_def by blast
qed

theorem rank_sermons_cache_write_witness:
  "events (rank_sermons (sample_env Raised)
           [''cache/rank_42_5d41402abc4b2a76b9719d911017c592.json''
              \<mapsto> Dict (Some (Naive 999)) (Some two_chunks)]
           ''faith'' three_sermons 42)
     = [CacheGet ''rank_42_5d41402abc4b2a76b9719d911017c592'', LlmInvoke]
   \<and> events (rank_sermons (sample_env (Returned ''[1.0]'')) Map.empty ''faith'' three_sermons 42)
     = [CacheGet ''rank_42_5d41402abc4b2a76b9719d911017c592'', LlmInvoke]
   \<and> files_after
        (rank_sermons (sample_env (Returned ''[1.0]'')) Map.empty ''faith'' three_sermons 42)
     = Map.empty
   \<and> events (rank_sermons (sample_env (Returned ''[2, 0]'')) Map.empty ''faith'' three_sermons 42)
     = [CacheGet ''rank_42_5d41402abc4b2a76b9719d911017c592'', LlmInvoke,
        CacheSet ''rank_42_5d41402abc4b2a76b9719d911017c592'']
   \<and> ranking (rank_sermons (sample_env (Returned ''[2, 0]'')) Map.empty ''faith'' three_sermons 42)
     = [three_sermons ! 2, three_sermons ! 0]
   \<and> files_after
        (rank_sermons (sample_env (Returned ''[2, 0]'')) Map.empty ''faith'' three_sermons 42)
     = [''cache/rank_42_5d41402abc4b2a76b9719d911017c592.json''
          \<mapsto> Dict (Some (Naive 21600002000)) (Some [three_sermons ! 2, three_sermons ! 0])]"
proof -
  let ?old = "[''cache/rank_42_5d41402abc4b2a76b9719d911017c592.json''
              \<mapsto> Dict (Some (Naive 999)) (Some two_chunks)]"
  have ne: "three_sermons \<noteq> []" by (simp add: three_sermons_def)
  have miss1: "fst (get (now_at_get (sample_env Raised)) ?old
                    (cache_key_of (sample_env Raised) 42 ''faith'')) = None
              \<or> fst (get (now_at_get (sample_env Raised)) ?old
                    (cache_key_of (sample_env Raised) 42 ''faith'')) = Some []"
    by (simp add: get_eq sample_cache_key cache_file_of_def CACHE_PATH_def sample_env_simps)
  have miss2: "fst (get (now_at_get (sample_env (Returned ''[2, 0]''))) Map.empty
                    (cache_key_of (sample_env (Returned ''[2, 0]'')) 42 ''faith'')) = None
              \<or> fst (get (now_at_get (sample_env (Returned ''[2, 0]''))) Map.empty
                    (cache_key_of (sample_env (Returned ''[2, 0]'')) 42 ''faith'')) = Some []"
    by (simp add: get_def)
  have miss3: "fst (get (now_at_get (sample_env (Returned ''[1.0]''))) Map.empty
                    (cache_key_of (sample_env (Returned ''[1.0]'')) 42 ''faith'')) = None
              \<or> fst (get (now_at_get (sample_env (Returned ''[1.0]''))) Map.empty
                    (cache_key_of (sample_env (Returned ''[1.0]'')) 42 ''faith'')) = Some []"
    by (simp add: get_def)
  have raised: "llm_invoke (sample_env Raised) (prompt_of ''faith'' three_sermons) = Raised"
    by (simp add: sample_env_simps)
  have returned: "llm_invoke (sample_env (Returned ''[2, 0]'')) (prompt_of ''faith'' three_sermons)
                    = Returned ''[2, 0]''"
    by (simp add: sample_env_simps)
  have parsed: "ranked_indexes_of (sample_env (Returned ''[2, 0]'')) (length three_sermons) ''[2, 0]''
                  = Inr [JInt 2, JInt 0]"
    by (simp add: ranked_indexes_of_def startswith_def endswith_def sample_env_simps)
  have ordered: "reorder three_sermons [JInt 2, JInt 0] [] {}
                  = Inr [three_sermons ! 2, three_sermons ! 0]"
    by (simp add: three_sermons_def sample_sermon_def)
  have float_answer:
    "llm_invoke (sample_env (Returned ''[1.0]'')) (prompt_of ''faith'' three_sermons)
       = Returned ''[1.0]''
     \<and> startswith ''[1.0]'' ''['' \<and> endswith ''[1.0]'' '']''
     \<and> json_loads (sample_env (Returned ''[1.0]'')) ''[1.0]'' = Some [JFloat 1]
     \<and> JFloat 1 \<in> set [JFloat 1] \<and> (0::rat) \<le> 1 \<and> (1::rat) < of_nat (length three_sermons)"
    by (simp add: sample_env_simps startswith_def endswith_def three_sermons_def)
  have e1: "events (rank_sermons (sample_env Raised) ?old ''faith'' three_sermons 42)
              = [CacheGet (cache_key_of (sample_env Raised) 42 ''faith''), LlmInvoke]"
    using rank_sermons_cache_write [OF ne miss1, of "''x''" "[]" "[]" 0] raised by blast
  have e2: "ranking (rank_sermons (sample_env (Returned ''[2, 0]'')) Map.empty ''faith'' three_sermons 42)
              = [three_sermons ! 2, three_sermons ! 0]
            \<and> events (rank_sermons (sample_env (Returned ''[2, 0]'')) Map.empty ''faith'' three_sermons 42)
              = [CacheGet (cache_key_of (sample_env (Returned ''[2, 0]'')) 42 ''faith''), LlmInvoke,
                 CacheSet (cache_key_of (sample_env (Returned ''[2, 0]'')) 42 ''faith'')]
            \<and> files_after
                 (rank_sermons (sample_env (Returned ''[2, 0]'')) Map.empty ''faith'' three_sermons 42)
              = (snd (get (now_at_get (sample_env (Returned ''[2, 0]''))) Map.empty
                       (cache_key_of (sample_env (Returned ''[2, 0]'')) 42 ''faith'')))
                  (cache_file_of (cache_key_of (sample_env (Returned ''[2, 0]'')) 42 ''faith'')
                     \<mapsto> Dict (Some (Naive (now_at_set (sample_env (Returned ''[2, 0]'')) + 21600000000)))
                          (Some [three_sermons ! 2, three_sermons ! 0]))"
    using rank_sermons_cache_write [OF ne miss2, of "''[2, 0]''" "[JInt 2, JInt 0]"
        "[three_sermons ! 2, three_sermons ! 0]" 0] returned parsed ordered
    by blast
  have e3: "events (rank_sermons (sample_env (Returned ''[1.0]'')) Map.empty ''faith'' three_sermons 42)
              = [CacheGet (cache_key_of (sample_env (Returned ''[1.0]'')) 42 ''faith''), LlmInvoke]
            \<and> files_after
                 (rank_sermons (sample_env (Returned ''[1.0]'')) Map.empty ''faith'' three_sermons 42)
              = snd (get (now_at_get (sample_env (Returned ''[1.0]''))) Map.empty
                       (cache_key_of (sample_env (Returned ''[1.0]'')) 42 ''faith''))"
    using rank_sermons_cache_write [OF ne miss3, of "''[1.0]''" "[JFloat 1]" "[]" 1] float_answer
    by blast
  show ?thesis
    by (simp add: e1 e2 e3 sample_cache_key get_eq cache_file_of_def CACHE_PATH_def
          sample_env_simps)
qed

text \<open>
  Claim C5, as stated, holds for every call that finds a fresh entry under the key.
  With an empty list of candidates \<open>rank_sermons\<close> returns the empty list before it
  looks at the cache, although the entry holds three sermons; and a fresh entry that
  holds the empty list is read, found false by \<open>if cached:\<close>, and followed by a call
  of the model and a write.
\<close>

theorem rank_sermons_cache_hit_counterexample:
  "[''cache/rank_42_5d41402abc4b2a76b9719d911017c592.json''
      \<mapsto> Dict (Some (Naive 5000)) (Some three_sermons)]
     (cache_file_of (cache_key_of (sample_env (Returned ''[2, 0]'')) 42 ''faith''))
     = Some (Dict (Some (Naive 5000)) (Some three_sermons))
   \<and> now_at_get (sample_env (Returned ''[2, 0]'')) \<le> 5000
   \<and> ranking (rank_sermons (sample_env (Returned ''[2, 0]''))
        [''cache/rank_42_5d41402abc4b2a76b9719d911017c592.json''
           \<mapsto> Dict (Some (Naive 5000)) (Some three_sermons)]
        ''faith'' [] 42)
     = []
   \<and> three_sermons \<noteq> []
   \<and> events (rank_sermons (sample_env (Returned ''[2, 0]''))
        [''cache/rank_42_5d41402abc4b2a76b9719d911017c592.json''
           \<mapsto> Dict (Some (Naive 5000)) (Some [])]
        ''faith'' three_sermons 42)
     = [CacheGet ''rank_42_5d41402abc4b2a76b9719d911017c592'', LlmInvoke,
        CacheSet ''rank_42_5d41402abc4b2a76b9719d911017c592'']"
  by (simp add: rank_sermons_def get_eq rank_try_def ranked_indexes_of_def
        sample_cache_key startswith_def endswith_def three_sermons_def sample_sermon_def
        Let_def cache_file_of_def CACHE_PATH_def sample_env_simps)

text \<open>
  Claim C5, amended. For a list of candidates that is not empty, when the file under
  the computed key holds an expiry time that is not before the current time and a
  value that is not the empty list, \<open>rank_sermons\<close> returns exactly that value,
  leaves the files as they are, and calls neither the language model nor \<open>cache.set\<close>.
\<close>

theorem rank_sermons_cache_hit:
  assumes "sermons \<noteq> []"
    and "files (cache_file_of (cache_key_of E user_id query))
           = Some (Dict (Some (Naive expires_at)) (Some cached))"
    and "now_at_get E \<le> expires_at"
    and "cached \<noteq> []"
  shows "rank_sermons E files query sermons user_id =
           \<lparr>ranking = cached, files_after = files,
            events = [CacheGet (cache_key_of E user_id query)]\<rparr>
         \<and> LlmInvoke \<notin> set (events (rank_sermons E files query sermons user_id))
         \<and> CacheSet (cache_key_of E user_id query)
             \<notin> set (events (rank_sermons E files query sermons user_id))"
proof -
  from assms(2,3) have "get (now_at_get E) files (cache_key_of E user_id query) = (Some cached, files)"
    by (simp add: get_eq)
  with assms(1,4) have "rank_sermons E files query sermons user_id =
           \<lparr>ranking = cached, files_after = files,
            events = [CacheGet (cache_key_of E user_id query)]\<rparr>"
    by (simp add: rank_sermons_def)
  then show ?thesis by simp
qed

theorem rank_sermons_cache_hit_witness:
  "rank_sermons (sample_env (Returned ''[2, 0]''))
     [''cache/rank_42_5d41402abc4b2a76b9719d911017c592.json''
        \<mapsto> Dict (Some (Naive 5000)) (Some two_chunks)]
     ''faith'' three_sermons 42
   = \<lparr>ranking = two_chunks,
      files_after = [''cache/rank_42_5d41402abc4b2a76b9719d911017c592.json''
                       \<mapsto> Dict (Some (Naive 5000)) (Some two_chunks)],
      events = [CacheGet ''rank_42_5d41402abc4b2a76b9719d911017c592'']\<rparr>"
proof -
  have ne: "three_sermons \<noteq> []" by (simp add: three_sermons_def)
  have entry: "[''cache/rank_42_5d41402abc4b2a76b9719d911017c592.json''
                  \<mapsto> Dict (Some (Naive 5000)) (Some two_chunks)]
                 (cache_file_of (cache_key_of (sample_env (Returned ''[2, 0]'')) 42 ''faith''))
               = Some (Dict (Some (Naive 5000)) (Some two_chunks))"
    by (simp add: sample_cache_key cache_file_of_def CACHE_PATH_def)
  have fresh: "now_at_get (sample_env (Returned ''[2, 0]'')) \<le> 5000"
    by (simp add: sample_env_simps)
  have full: "two_chunks \<noteq> []" by (simp add: two_chunks_def)
  show ?thesis
    using rank_sermons_cache_hit
      [where sermons = three_sermons and E = "sample_env (Returned ''[2, 0]'')"
         and user_id = 42 and query = "''faith''"
         and files = "[''cache/rank_42_5d41402abc4b2a76b9719d911017c592.json''
                         \<mapsto> Dict (Some (Naive 5000)) (Some two_chunks)]",
       OF ne entry fresh full]
    by (simp add: sample_cache_key)
qed

text \<open>
  The re-ordering loop returns sermons of the input only, and no link twice; so does
  the \<open>try\<close> block. The filter by score returns sermons of the input only.
\<close>

lemma lookup_index_member:
  "lookup_index sermons idx = Inr (Some s) \<Longrightarrow> s \<in> set sermons"
  by (cases idx) (auto split: if_splits)

lemma reorder_invariant:
  assumes "reorder sermons js acc seen = Inr out"
    and "set acc \<subseteq> set sermons"
    and "distinct (map message_link acc)"
    and "message_link ` set acc \<subseteq> seen"
  shows "set out \<subseteq> set sermons \<and> distinct (map message_link out)"
  using assms
proof (induction js arbitrary: acc seen)
  case Nil
  then show ?case by simp
next
  case (Cons idx rest)
  show ?case
  proof (cases "lookup_index sermons idx")
    case (Inl e)
    with Cons.prems(1) show ?thesis by simp
  next
    case (Inr found)
    show ?thesis
    proof (cases found)
      case None
      with Inr Cons.prems have "reorder sermons rest acc seen = Inr out" by simp
      then show ?thesis using Cons.IH Cons.prems(2-4) by blast
    next
      case (Some s)
      with Inr have mem: "s \<in> set sermons" by (simp add: lookup_index_member)
      show ?thesis
      proof (cases "message_link s \<in> seen")
        case True
        with Inr Some Cons.prems have "reorder sermons rest acc seen = Inr out" by simp
        then show ?thesis using Cons.IH Cons.prems(2-4) by blast
      next
        case False
        with Inr Some Cons.prems(1)
        have step: "reorder sermons rest (acc @ [s]) (insert (message_link s) seen) = Inr out"
          by simp
        have "set (acc @ [s]) \<subseteq> set sermons" using mem Cons.prems(2) by simp
        moreover have "distinct (map message_link (acc @ [s]))"
          using False Cons.prems(3,4) by auto
        moreover have "message_link ` set (acc @ [s]) \<subseteq> insert (message_link s) seen"
          using Cons.prems(4) by auto
        ultimately show ?thesis using Cons.IH [OF step] by blast
      qed
    qed
  qed
qed

lemma rank_try_links:
  assumes "rank_try E files query sermons key = Inr (out, files2)"
  shows "set out \<subseteq> set sermons \<and> distinct (map message_link out)"
  using assms reorder_invariant [of sermons _ "[]" "{}" out]
  by (auto simp add: rank_try_def split: outcome.splits sum.splits)

lemma fallback_by_score_subset:
  "set (fallback_by_score sermons) \<subseteq> set sermons"
  by (auto simp add: fallback_by_score_def)

text \<open>
  Claim C4 at the two chunks of one document, both with the link
  \<open>materials/prayer.txt\<close> and scores 0.9 and 0.8, when the call of the model raises:
  the filter by score returns both chunks, so the returned list holds the link twice.
\<close>

theorem rank_sermons_fallback_duplicate_links:
  "ranking (rank_sermons (sample_env Raised) Map.empty ''prayer'' two_chunks 42) = two_chunks
   \<and> map message_link two_chunks = [''materials/prayer.txt'', ''materials/prayer.txt'']
   \<and> \<not> distinct (map message_link
          (ranking (rank_sermons (sample_env Raised) Map.empty ''prayer'' two_chunks 42)))"
  by (simp add: rank_sermons_def get_def rank_try_def sample_env_simps two_chunks_def
        sample_sermon_def fallback_by_score_def MIN_RELEVANCE_SCORE_def Let_def)

subsection \<open>Binary64 rounding\<close>

text \<open>
  The exponent brackets its argument; rounding stays between floor and ceiling; a
  number between 0 and 1 rounds to a number between 0 and 1; a binary64 number above 1
  is at least \<open>1 + 2^(-52)\<close>, and its difference from 1 rounds to a negative number.
\<close>

lemma exponent_bounds:
  assumes "x \<noteq> 0"
  shows "2 powi (exponent x) \<le> \<bar>x\<bar> \<and> \<bar>x\<bar> < 2 powi (exponent x + 1)"
proof -
  obtain p q where pq: "quotient_of x = (p, q)" by (cases "quotient_of x")
  then have q: "0 < q" and x: "x = of_int p / of_int q"
    by (simp_all add: quotient_of_denom_pos quotient_of_div)
  with assms have p: "0 < \<bar>p\<bar>" by auto
  define d where "d = bitlen \<bar>p\<bar> - bitlen q"
  have bp: "2 ^ nat (bitlen \<bar>p\<bar> - 1) \<le> \<bar>p\<bar>" "\<bar>p\<bar> < 2 ^ nat (bitlen \<bar>p\<bar>)"
    using bitlen_bounds [OF p] by simp_all
  have bq: "2 ^ nat (bitlen q - 1) \<le> q" "q < 2 ^ nat (bitlen q)"
    using bitlen_bounds [OF q] by simp_all
  have lp: "1 \<le> bitlen \<bar>p\<bar>" using p bitlen_eq_zero_iff [of "\<bar>p\<bar>"] bitlen_nonneg [of "\<bar>p\<bar>"] by linarith
  have lq: "1 \<le> bitlen q" using q bitlen_eq_zero_iff [of q] bitlen_nonneg [of q] by linarith
  have ax: "\<bar>x\<bar> = of_int \<bar>p\<bar> / of_int q" using x q by simp
  have rp: "(2::rat) powi (bitlen \<bar>p\<bar> - 1) \<le> of_int \<bar>p\<bar>" "of_int \<bar>p\<bar> < (2::rat) powi (bitlen \<bar>p\<bar>)"
  proof -
    have "(2::rat) powi (bitlen \<bar>p\<bar> - 1) = of_int (2 ^ nat (bitlen \<bar>p\<bar> - 1))"
      using lp by (simp add: power_int_def)
    also have "\<dots> \<le> of_int \<bar>p\<bar>" using bp(1) by (simp only: of_int_le_iff)
    finally show "(2::rat) powi (bitlen \<bar>p\<bar> - 1) \<le> of_int \<bar>p\<bar>" .
    have "(of_int \<bar>p\<bar> :: rat) < of_int (2 ^ nat (bitlen \<bar>p\<bar>))"
      using bp(2) by (simp only: of_int_less_iff)
    also have "\<dots> = (2::rat) powi (bitlen \<bar>p\<bar>)"
      using lp by (simp add: power_int_def)
    finally show "of_int \<bar>p\<bar> < (2::rat) powi (bitlen \<bar>p\<bar>)" .
  qed
  have rq: "(2::rat) powi (bitlen q - 1) \<le> of_int q" "of_int q < (2::rat) powi (bitlen q)"
  proof -
    have "(2::rat) powi (bitlen q - 1) = of_int (2 ^ nat (bitlen q - 1))"
      using lq by (simp add: power_int_def)
    also have "\<dots> \<le> of_int q" using bq(1) by (simp only: of_int_le_iff)
    finally show "(2::rat) powi (bitlen q - 1) \<le> of_int q" .
    have "(of_int q :: rat) < of_int (2 ^ nat (bitlen q))"
      using bq(2) by (simp only: of_int_less_iff)
    also have "\<dots> = (2::rat) powi (bitlen q)"
      using lq by (simp add: power_int_def)
    finally show "of_int q < (2::rat) powi (bitlen q)" .
  qed
  have qpos: "(0::rat) < of_int q" using q by simp
  have lower: "(2::rat) powi (d - 1) \<le> \<bar>x\<bar>"
  proof -
    have "(2::rat) powi (d - 1) * of_int q \<le> 2 powi (d - 1) * 2 powi (bitlen q)"
      using rq(2) by (intro mult_left_mono) auto
    also have "\<dots> = 2 powi (bitlen \<bar>p\<bar> - 1)"
      by (simp add: d_def flip: power_int_add)
    also have "\<dots> \<le> of_int \<bar>p\<bar>" by (rule rp(1))
    finally show ?thesis using qpos by (simp add: ax pos_le_divide_eq)
  qed
  have upper: "\<bar>x\<bar> < (2::rat) powi (d + 1)"
  proof -
    have "of_int \<bar>p\<bar> < (2::rat) powi (bitlen \<bar>p\<bar>)" by (rule rp(2))
    also have "\<dots> = 2 powi (d + 1) * 2 powi (bitlen q - 1)"
      by (simp add: d_def flip: power_int_add)
    also have "\<dots> \<le> 2 powi (d + 1) * of_int q"
      using rq(1) by (intro mult_left_mono) auto
    finally show ?thesis using qpos by (simp add: ax pos_divide_less_eq)
  qed
  have e: "exponent x = (if 2 powi d \<le> \<bar>x\<bar> then d else d - 1)"
    by (simp add: exponent_def pq d_def)
  show ?thesis
  proof (cases "2 powi d \<le> \<bar>x\<bar>")
    case True
    with e upper show ?thesis by simp
  next
    case False
    with e lower show ?thesis by simp
  qed
qed

lemma round_half_even_bounds:
  "\<lfloor>q\<rfloor> \<le> round_half_even q \<and> round_half_even q \<le> \<lceil>q\<rceil>"
proof -
  have "q - of_int \<lfloor>q\<rfloor> > 0 \<Longrightarrow> \<lfloor>q\<rfloor> + 1 \<le> \<lceil>q\<rceil>"
    by (metis diff_gt_0_iff_gt less_ceiling_iff zless_imp_add1_zle)
  then show ?thesis
    by (auto simp add: round_half_even_def Let_def)
qed

lemma round_half_even_ge: "of_int m \<le> q \<Longrightarrow> m \<le> round_half_even q"
  using round_half_even_bounds [of q] by (meson le_floor_iff order_trans)

lemma round_half_even_le: "q \<le> of_int m \<Longrightarrow> round_half_even q \<le> m"
  using round_half_even_bounds [of q] by (meson ceiling_le_iff order_trans)

lemma pow2_le_imp: "(2::rat) powi a \<le> 2 powi b \<Longrightarrow> a \<le> b"
  using power_int_strict_increasing [of b a "2::rat"] by (cases "a \<le> b") auto

lemma pow2_less_imp: "(2::rat) powi a < 2 powi b \<Longrightarrow> a < b"
  using power_int_increasing [of b a "2::rat"] by (cases "a < b") auto

lemma binary64_unit_interval:
  assumes "0 \<le> x" and "x \<le> 1"
  shows "0 \<le> binary64 x \<and> binary64 x \<le> 1"
proof (cases "x = 0")
  case True
  then show ?thesis by (simp add: binary64_def)
next
  case False
  define e where "e = max (exponent x) (- 1022)"
  define ulp :: rat where "ulp = 2 powi (e - 52)"
  have b: "binary64 x = of_int (round_half_even (x / ulp)) * ulp"
    using False by (simp add: binary64_def ulp_def e_def Let_def)
  have ulp: "0 < ulp" by (simp add: ulp_def)
  have "(2::rat) powi (exponent x) \<le> 2 powi 0"
    using exponent_bounds [OF False] assms by simp
  then have "exponent x \<le> 0" by (rule pow2_le_imp)
  then have e: "e \<le> 0" by (simp add: e_def)
  have "of_int 0 \<le> x / ulp" using assms(1) ulp by simp
  then have lo: "0 \<le> round_half_even (x / ulp)" by (rule round_half_even_ge)
  have one: "1 / ulp = of_int (2 ^ nat (52 - e))"
  proof -
    have "1 / ulp = 2 powi (52 - e)"
      by (simp add: ulp_def power_int_diff)
    also have "\<dots> = of_int (2 ^ nat (52 - e))"
      using e by (simp add: power_int_def)
    finally show ?thesis .
  qed
  have "x / ulp \<le> 1 / ulp" using assms(2) ulp by (simp add: divide_right_mono)
  then have "x / ulp \<le> of_int (2 ^ nat (52 - e))" by (simp only: one)
  then have "round_half_even (x / ulp) \<le> 2 ^ nat (52 - e)" by (rule round_half_even_le)
  then have "(of_int (round_half_even (x / ulp)) :: rat) \<le> of_int (2 ^ nat (52 - e))"
    by (simp only: of_int_le_iff)
  then have "of_int (round_half_even (x / ulp)) * ulp \<le> (1 / ulp) * ulp"
    using ulp by (simp only: one mult_le_cancel_right_pos)
  then have hi: "binary64 x \<le> 1" using ulp by (simp add: b)
  from lo ulp have "0 \<le> binary64 x" by (simp add: b)
  with hi show ?thesis by simp
qed

lemma binary64_one: "binary64 1 = 1"
  by code_simp

lemma binary64_above_one:
  assumes "binary64 d = d" and "1 < d"
  shows "1 + 2 powi (- 52) \<le> d"
proof -
  have nz: "d \<noteq> 0" using assms(2) by simp
  define e where "e = exponent d"
  define ulp :: rat where "ulp = 2 powi (e - 52)"
  define n where "n = round_half_even (d / ulp)"
  have "\<bar>d\<bar> < 2 powi (e + 1)" using exponent_bounds [OF nz] by (simp add: e_def)
  with assms(2) have "(2::rat) powi 0 < 2 powi (e + 1)" by simp
  then have "0 < e + 1" by (rule pow2_less_imp)
  then have e: "0 \<le> e" by simp
  then have "max (exponent d) (- 1022) = e" by (simp add: e_def)
  then have "binary64 d = of_int n * ulp"
    using nz by (simp add: binary64_def ulp_def n_def e_def Let_def)
  with assms(1) have d: "d = of_int n * ulp" by simp
  have ulp: "0 < ulp" by (simp add: ulp_def)
  have ulp_ge: "2 powi (- 52) \<le> ulp"
    unfolding ulp_def using e by (intro power_int_increasing) auto
  show ?thesis
  proof (cases "e \<le> 52")
    case True
    have one: "1 = of_int (2 ^ nat (52 - e)) * ulp"
    proof -
      have "of_int (2 ^ nat (52 - e)) * ulp = 2 powi (52 - e) * 2 powi (e - 52)"
        using True by (simp add: power_int_def ulp_def)
      also have "\<dots> = 1" by (simp flip: power_int_add)
      finally show ?thesis by simp
    qed
    from assms(2) have "of_int (2 ^ nat (52 - e)) * ulp < of_int n * ulp"
      using d one by simp
    then have "(of_int (2 ^ nat (52 - e)) :: rat) < of_int n"
      using ulp by (simp only: mult_less_cancel_right_pos)
    then have "2 ^ nat (52 - e) < n" by (simp only: of_int_less_iff)
    then have "2 ^ nat (52 - e) + 1 \<le> n" by simp
    then have "(of_int (2 ^ nat (52 - e) + 1) :: rat) \<le> of_int n" by (simp only: of_int_le_iff)
    then have "of_int (2 ^ nat (52 - e) + 1) * ulp \<le> of_int n * ulp"
      using ulp by (simp only: mult_le_cancel_right_pos)
    then have "of_int (2 ^ nat (52 - e)) * ulp + ulp \<le> d"
      by (simp add: d algebra_simps)
    then have "1 + ulp \<le> d" using one by simp
    with ulp_ge show ?thesis by simp
  next
    case False
    then have "(2::rat) powi 53 \<le> 2 powi e" by (intro power_int_increasing) auto
    also have "\<dots> \<le> \<bar>d\<bar>" using exponent_bounds [OF nz] by (simp add: e_def)
    finally have "2 ^ 53 \<le> d" using assms(2) by simp
    moreover have "(1::rat) + 2 powi (- 52) \<le> 2 ^ 53" by simp
    ultimately show ?thesis by linarith
  qed
qed

lemma binary64_negative:
  assumes "x \<le> - (2 powi (- 52))"
  shows "binary64 x < 0"
proof -
  have p: "(0::rat) < 2 powi (- 52)" by simp
  with assms have neg: "x < 0" by linarith
  then have nz: "x \<noteq> 0" by simp
  define e where "e = exponent x"
  have "(2::rat) powi (- 52) \<le> \<bar>x\<bar>" using assms neg by simp
  also have "\<dots> < 2 powi (e + 1)" using exponent_bounds [OF nz] by (simp add: e_def)
  finally have "- 52 < e + 1" by (rule pow2_less_imp)
  then have "max (exponent x) (- 1022) = e" by (simp add: e_def)
  define ulp :: rat where "ulp = 2 powi (e - 52)"
  have b: "binary64 x = of_int (round_half_even (x / ulp)) * ulp"
    using nz \<open>max (exponent x) (- 1022) = e\<close> by (simp add: binary64_def ulp_def Let_def)
  have ulp: "0 < ulp" by (simp add: ulp_def)
  have "ulp \<le> 2 powi e" unfolding ulp_def by (intro power_int_increasing) auto
  also have "\<dots> \<le> \<bar>x\<bar>" using exponent_bounds [OF nz] by (simp add: e_def)
  finally have "ulp \<le> - x" using neg by simp
  then have "x / ulp \<le> of_int (- 1)" using ulp by (simp add: pos_divide_le_eq)
  then have "round_half_even (x / ulp) \<le> - 1" by (rule round_half_even_le)
  then have "(of_int (round_half_even (x / ulp)) :: rat) < 0" by simp
  with ulp show ?thesis by (simp add: b mult_neg_pos)
qed

lemma binary64_one_minus_negative:
  assumes "binary64 d = d" and "1 < d"
  shows "binary64 (1 - d) < 0"
  using binary64_above_one [OF assms] by (intro binary64_negative) linarith

subsection \<open>Retrieval\<close>

text \<open>The two sample distances are binary64 numbers, and so are their scores.\<close>

lemma sample_distances:
  "binary64 (3 / 2) = 3 / 2"
  "binary64 (1 - 3 / 2) = - (1 / 2)"
  "binary64 (- (1 / 2)) = - (1 / 2)"
  "binary64 (3602879701896397 / 36028797018963968) = 3602879701896397 / 36028797018963968"
  "binary64 (1 - 3602879701896397 / 36028797018963968) = 8106479329266893 / 9007199254740992"
  "binary64 (32425917317067571 / 36028797018963968) = 8106479329266893 / 9007199254740992"
  by code_simp+

text \<open>
  Claim C7, as stated, puts every similarity score in the interval from 0 to 1. A
  document at distance 1.5 gets the score -0.5.
\<close>

theorem search_similarity_score_counterexample:
  "map similarity_score (search far_store ''giving'' 20) = [- (1 / 2)]
   \<and> \<not> (0 \<le> - (1 / 2 :: rat))"
  by (simp add: search_def far_store_def search_hit_def sample_distances)

text \<open>
  Claim C7, amended. When the vector store returns, the score of each hit is the
  binary64 difference \<open>1 - distance\<close> of its distance, in the order returned. The
  score of a hit lies between 0 and 1 when its distance does, it is 1 at distance 0,
  and it is negative when the distance, a binary64 number, exceeds 1.
\<close>

theorem search_similarity_score:
  assumes "similarity_search_with_score query k = Returned results"
  shows "map similarity_score (search similarity_search_with_score query k)
           = map (\<lambda>(md, distance). binary64 (1 - distance)) results
         \<and> ((md, distance) \<in> set results \<and> 0 \<le> distance \<and> distance \<le> 1
              \<longrightarrow> 0 \<le> similarity_score (search_hit (md, distance))
                  \<and> similarity_score (search_hit (md, distance)) \<le> 1)
         \<and> ((md, distance) \<in> set results \<and> distance = 0
              \<longrightarrow> similarity_score (search_hit (md, distance)) = 1)
         \<and> ((md, distance) \<in> set results \<and> binary64 distance = distance \<and> 1 < distance
              \<longrightarrow> similarity_score (search_hit (md, distance)) < 0)
         \<and> ((md, distance) \<in> set results
              \<longrightarrow> search_hit (md, distance) \<in> set (search similarity_search_with_score query k))"
proof -
  have score: "\<And>m d. similarity_score (search_hit (m, d)) = binary64 (1 - d)"
    by (simp add: search_hit_def)
  have scores: "map similarity_score (search similarity_search_with_score query k)
           = map (\<lambda>(md, distance). binary64 (1 - distance)) results"
    using assms by (auto simp add: search_def search_hit_def)
  have unit: "0 \<le> distance \<and> distance \<le> 1
              \<longrightarrow> 0 \<le> similarity_score (search_hit (md, distance))
                  \<and> similarity_score (search_hit (md, distance)) \<le> 1"
    using binary64_unit_interval [of "1 - distance"] by (simp add: score)
  have identical: "distance = 0 \<longrightarrow> similarity_score (search_hit (md, distance)) = 1"
    by (simp add: score binary64_one)
  have beyond: "binary64 distance = distance \<and> 1 < distance
              \<longrightarrow> similarity_score (search_hit (md, distance)) < 0"
    using binary64_one_minus_negative [of distance] by (simp add: score)
  have member: "(md, distance) \<in> set results
              \<longrightarrow> search_hit (md, distance) \<in> set (search similarity_search_with_score query k)"
    using assms by (auto simp add: search_def)
  from scores unit identical beyond member show ?thesis by blast
qed

theorem search_similarity_score_witness:
  "map similarity_score (search far_store ''giving'' 20) = [- (1 / 2)]
   \<and> similarity_score (search_hit ([''title'' \<mapsto> ''On giving''], 3 / 2)) < 0
   \<and> map similarity_score (search near_store ''giving'' 20)
       = [8106479329266893 / 9007199254740992]
   \<and> 0 \<le> similarity_score
            (search_hit ([''title'' \<mapsto> ''On giving''], 3602879701896397 / 36028797018963968))
   \<and> similarity_score
            (search_hit ([''title'' \<mapsto> ''On giving''], 3602879701896397 / 36028797018963968)) \<le> 1"
proof -
  have far: "far_store ''giving'' 20 = Returned [([''title'' \<mapsto> ''On giving''], 3 / 2)]"
    by (simp add: far_store_def)
  have near: "near_store ''giving'' 20
                = Returned [([''title'' \<mapsto> ''On giving''], 3602879701896397 / 36028797018963968)]"
    by (simp add: near_store_def)
  show ?thesis
    using search_similarity_score
      [where similarity_search_with_score = far_store and query = "''giving''" and k = 20
         and md = "[''title'' \<mapsto> ''On giving'']" and distance = "3 / 2", OF far]
      search_similarity_score
      [where similarity_search_with_score = near_store and query = "''giving''" and k = 20
         and md = "[''title'' \<mapsto> ''On giving'']"
         and distance = "3602879701896397 / 36028797018963968", OF near]
    by (simp add: sample_distances)
qed

subsection \<open>The sermons table\<close>

text \<open>
  An insert into an unlocked table is accepted when no \<open>NOT NULL\<close> column is given
  \<open>None\<close>; a call on a locked table changes nothing; a rejected insert changes no
  row; every call keeps the links of the table pairwise different.
\<close>

lemma dict_get_not_null:
  "d k \<noteq> Some None \<Longrightarrow> \<exists>v. dict_get d k (Some []) = Some v"
  by (cases "d k") (auto simp add: dict_get_def)

lemma add_sermon_accepted:
  assumes "\<not> write_lock db"
    and "Some None \<notin> d ` {''title'', ''description'', ''channel'', ''message_link''}"
  shows "\<exists>t ds c l.
           dict_get d ''title'' (Some []) = Some t
         \<and> dict_get d ''description'' (Some []) = Some ds
         \<and> dict_get d ''channel'' (Some []) = Some c
         \<and> dict_get d ''message_link'' (Some []) = Some l
         \<and> add_sermon db now d =
             (Some (sqlite_sequence db + 1),
              db\<lparr>rows := filter (\<lambda>r. col_message_link r \<noteq> l) (rows db)
                       @ [\<lparr>col_id = sqlite_sequence db + 1, col_title = t, col_description = ds,
                           col_channel = c, col_message_link = l,
                           col_image_url = dict_get d ''image_url'' None,
                           col_date = dict_get d ''date'' None,
                           col_theme = dict_get d ''theme'' (Some []),
                           col_created_at = now, col_updated_at = now\<rparr>],
                 sqlite_sequence := sqlite_sequence db + 1\<rparr>)"
proof -
  from assms(2) have "d ''title'' \<noteq> Some None" "d ''description'' \<noteq> Some None"
    "d ''channel'' \<noteq> Some None" "d ''message_link'' \<noteq> Some None"
    by (simp_all add: image_iff) metis+
  then obtain t ds c l where
    "dict_get d ''title'' (Some []) = Some t"
    "dict_get d ''description'' (Some []) = Some ds"
    "dict_get d ''channel'' (Some []) = Some c"
    "dict_get d ''message_link'' (Some []) = Some l"
    using dict_get_not_null by metis
  with assms(1) show ?thesis by (simp add: add_sermon_def Let_def)
qed

lemma add_sermon_rows_cases:
  "rows (snd (add_sermon db now d)) = rows db
   \<or> (\<exists>l new_row. col_message_link new_row = l
         \<and> rows (snd (add_sermon db now d))
             = filter (\<lambda>r. col_message_link r \<noteq> l) (rows db) @ [new_row])"
  by (auto simp add: add_sermon_def Let_def split: option.splits)

lemma add_sermon_keeps_links_unique:
  assumes "distinct (map col_message_link (rows db))"
  shows "distinct (map col_message_link (rows (snd (add_sermon db now d))))"
  using add_sermon_rows_cases [of db now d] assms
  by (auto simp add: distinct_map_filter)

lemma find_after_misses:
  "find P xs = None \<Longrightarrow> find P (xs @ ys) = find P ys"
  by (induction xs) (auto split: if_splits)

text \<open>
  After a rejected insert the table is locked, and a record that would have been
  accepted is turned away.
\<close>

lemma add_sermon_after_rejected:
  "fst (add_sermon empty_database 100 ((sample_data ''First title'' ''https://t.me/pst_tara/10'')
          (''title'' \<mapsto> None))) = None
   \<and> fst (add_sermon
        (snd (add_sermon empty_database 100
               ((sample_data ''First title'' ''https://t.me/pst_tara/10'')(''title'' \<mapsto> None))))
        200 (sample_data ''Second title'' ''https://t.me/pst_tara/11'')) = None"
  by (simp add: add_sermon_def dict_get_def sample_data_def empty_database_def)

text \<open>
  Claim C8, as stated, holds for every pair of records with the same link. When the
  second record carries \<open>None\<close> as its title, SQLite rejects it: \<open>add_sermon\<close>
  returns \<open>None\<close>, and the one row with the link still shows the first record.
\<close>

theorem add_sermon_replace_on_conflict_counterexample:
  "fst (add_sermon
        (snd (add_sermon empty_database 100
               (sample_data ''First title'' ''https://t.me/pst_tara/10'')))
        200 ((sample_data ''Second title'' ''https://t.me/pst_tara/10'')(''title'' \<mapsto> None)))
     = None
   \<and> map col_title
       (rows (snd (add_sermon
          (snd (add_sermon empty_database 100
                 (sample_data ''First title'' ''https://t.me/pst_tara/10'')))
          200 ((sample_data ''Second title'' ''https://t.me/pst_tara/10'')(''title'' \<mapsto> None)))))
     = [''First title'']"
  by (simp add: add_sermon_def dict_get_def sample_data_def empty_database_def Let_def)

text \<open>
  Claim C8, amended. When two records with the same \<open>message_link\<close>, neither with
  \<open>None\<close> in a \<open>NOT NULL\<close> column (title, description, channel, message\_link),
  are inserted one after the other into a table that is not locked, both inserts are
  accepted, under consecutive row ids, and the table then holds exactly one row with
  that link; its columns are those of the second record and \<open>get_sermon_by_link\<close>
  finds it; the count after the second insert is the count after the first, which is
  one more than the number of rows with other links. And every call of
  \<open>add_sermon\<close>, accepted or not, keeps the links of the table pairwise different.
\<close>

theorem add_sermon_replace_on_conflict:
  assumes "\<not> write_lock db"
    and "Some None \<notin> d1 ` {''title'', ''description'', ''channel'', ''message_link''}"
    and "Some None \<notin> d2 ` {''title'', ''description'', ''channel'', ''message_link''}"
    and "dict_get d1 ''message_link'' (Some []) = dict_get d2 ''message_link'' (Some [])"
  shows "fst (add_sermon db t1 d1) = Some (sqlite_sequence db + 1)
       \<and> fst (add_sermon (snd (add_sermon db t1 d1)) t2 d2) = Some (sqlite_sequence db + 2)
       \<and> (\<exists>r. filter (\<lambda>r. Some (col_message_link r) = dict_get d2 ''message_link'' (Some []))
                (rows (snd (add_sermon (snd (add_sermon db t1 d1)) t2 d2))) = [r]
            \<and> Some (col_title r) = dict_get d2 ''title'' (Some [])
            \<and> Some (col_description r) = dict_get d2 ''description'' (Some [])
            \<and> Some (col_channel r) = dict_get d2 ''channel'' (Some [])
            \<and> col_image_url r = dict_get d2 ''image_url'' None
            \<and> col_date r = dict_get d2 ''date'' None
            \<and> col_theme r = dict_get d2 ''theme'' (Some [])
            \<and> col_updated_at r = t2
            \<and> get_sermon_by_link (snd (add_sermon (snd (add_sermon db t1 d1)) t2 d2))
                  (col_message_link r) = Some r)
       \<and> get_sermon_count (snd (add_sermon (snd (add_sermon db t1 d1)) t2 d2))
           = get_sermon_count (snd (add_sermon db t1 d1))
       \<and> get_sermon_count (snd (add_sermon db t1 d1))
           = length (filter (\<lambda>r. Some (col_message_link r) \<noteq> dict_get d1 ''message_link'' (Some []))
                       (rows db)) + 1
       \<and> (distinct (map col_message_link (rows db0))
            \<longrightarrow> distinct (map col_message_link (rows (snd (add_sermon db0 t0 d0)))))"
proof -
  obtain a1 b1 c1 l where
    l1: "dict_get d1 ''message_link'' (Some []) = Some l" and
    s1: "add_sermon db t1 d1 =
             (Some (sqlite_sequence db + 1),
              db\<lparr>rows := filter (\<lambda>r. col_message_link r \<noteq> l) (rows db)
                       @ [\<lparr>col_id = sqlite_sequence db + 1, col_title = a1, col_description = b1,
                           col_channel = c1, col_message_link = l,
                           col_image_url = dict_get d1 ''image_url'' None,
                           col_date = dict_get d1 ''date'' None,
                           col_theme = dict_get d1 ''theme'' (Some []),
                           col_created_at = t1, col_updated_at = t1\<rparr>],
                 sqlite_sequence := sqlite_sequence db + 1\<rparr>)"
    using add_sermon_accepted [OF assms(1,2)] by blast
  define db1 where "db1 = snd (add_sermon db t1 d1)"
  have rows1: "rows db1 = filter (\<lambda>r. col_message_link r \<noteq> l) (rows db)
                       @ [\<lparr>col_id = sqlite_sequence db + 1, col_title = a1, col_description = b1,
                           col_channel = c1, col_message_link = l,
                           col_image_url = dict_get d1 ''image_url'' None,
                           col_date = dict_get d1 ''date'' None,
                           col_theme = dict_get d1 ''theme'' (Some []),
                           col_created_at = t1, col_updated_at = t1\<rparr>]"
    and seq1: "sqlite_sequence db1 = sqlite_sequence db + 1"
    and unlocked1: "\<not> write_lock db1"
    using assms(1) by (simp_all add: db1_def s1)
  have first: "fst (add_sermon db t1 d1) = Some (sqlite_sequence db + 1)"
    by (simp add: s1)
  obtain a2 b2 c2 l' where
    f2: "dict_get d2 ''title'' (Some []) = Some a2"
        "dict_get d2 ''description'' (Some []) = Some b2"
        "dict_get d2 ''channel'' (Some []) = Some c2"
        "dict_get d2 ''message_link'' (Some []) = Some l'" and
    s2: "add_sermon db1 t2 d2 =
             (Some (sqlite_sequence db1 + 1),
              db1\<lparr>rows := filter (\<lambda>r. col_message_link r \<noteq> l') (rows db1)
                       @ [\<lparr>col_id = sqlite_sequence db1 + 1, col_title = a2, col_description = b2,
                           col_channel = c2, col_message_link = l',
                           col_image_url = dict_get d2 ''image_url'' None,
                           col_date = dict_get d2 ''date'' None,
                           col_theme = dict_get d2 ''theme'' (Some []),
                           col_created_at = t2, col_updated_at = t2\<rparr>],
                  sqlite_sequence := sqlite_sequence db1 + 1\<rparr>)"
    using add_sermon_accepted [OF unlocked1 assms(3)] by blast
  from assms(4) l1 f2(4) have same: "l' = l" by simp
  have second: "fst (add_sermon db1 t2 d2) = Some (sqlite_sequence db + 2)"
    by (simp add: s2 seq1)
  define new_row where "new_row =
     \<lparr>col_id = sqlite_sequence db1 + 1, col_title = a2, col_description = b2,
      col_channel = c2, col_message_link = l,
      col_image_url = dict_get d2 ''image_url'' None,
      col_date = dict_get d2 ''date'' None,
      col_theme = dict_get d2 ''theme'' (Some []),
      col_created_at = t2, col_updated_at = t2\<rparr>"
  have rows2: "rows (snd (add_sermon db1 t2 d2))
                 = filter (\<lambda>r. col_message_link r \<noteq> l) (rows db) @ [new_row]"
    by (simp add: s2 same rows1 new_row_def)
  have only: "filter (\<lambda>r. Some (col_message_link r) = dict_get d2 ''message_link'' (Some []))
                (rows (snd (add_sermon db1 t2 d2))) = [new_row]"
    by (simp add: rows2 f2(4) same new_row_def)
  have found: "get_sermon_by_link (snd (add_sermon db1 t2 d2)) (col_message_link new_row)
                 = Some new_row"
  proof -
    have "find (\<lambda>r. col_message_link r = l) (filter (\<lambda>r. col_message_link r \<noteq> l) (rows db)) = None"
      by (simp add: find_None_iff)
    then show ?thesis
      by (simp add: get_sermon_by_link_def rows2 find_after_misses new_row_def)
  qed
  have fields: "Some (col_title new_row) = dict_get d2 ''title'' (Some [])"
    "Some (col_description new_row) = dict_get d2 ''description'' (Some [])"
    "Some (col_channel new_row) = dict_get d2 ''channel'' (Some [])"
    "col_image_url new_row = dict_get d2 ''image_url'' None"
    "col_date new_row = dict_get d2 ''date'' None"
    "col_theme new_row = dict_get d2 ''theme'' (Some [])"
    "col_updated_at new_row = t2"
    by (simp_all add: new_row_def f2)
  have count2: "get_sermon_count (snd (add_sermon db1 t2 d2)) = get_sermon_count db1"
    by (simp add: get_sermon_count_def rows2 rows1)
  have count1: "get_sermon_count db1
           = length (filter (\<lambda>r. Some (col_message_link r) \<noteq> dict_get d1 ''message_link'' (Some []))
                       (rows db)) + 1"
    by (simp add: get_sermon_count_def rows1 l1)
  have inv: "distinct (map col_message_link (rows db0))
            \<longrightarrow> distinct (map col_message_link (rows (snd (add_sermon db0 t0 d0))))"
    by (simp add: add_sermon_keeps_links_unique)
  from first second only found fields count2 count1 inv show ?thesis
    unfolding db1_def by blast
qed

theorem add_sermon_replace_on_conflict_witness:
  "fst (add_sermon
        (snd (add_sermon empty_database 100
               (sample_data ''First title'' ''https://t.me/pst_tara/10'')))
        200 (sample_data ''Second title'' ''https://t.me/pst_tara/10'')) = Some 2
   \<and> map col_title
     (rows (snd (add_sermon
        (snd (add_sermon empty_database 100
               (sample_data ''First title'' ''https://t.me/pst_tara/10'')))
        200 (sample_data ''Second title'' ''https://t.me/pst_tara/10''))))
     = [''Second title'']
   \<and> get_sermon_count
       (snd (add_sermon
        (snd (add_sermon empty_database 100
               (sample_data ''First title'' ''https://t.me/pst_tara/10'')))
        200 (sample_data ''Second title'' ''https://t.me/pst_tara/10''))) = 1"
proof -
  let ?d1 = "sample_data ''First title'' ''https://t.me/pst_tara/10''"
  let ?d2 = "sample_data ''Second title'' ''https://t.me/pst_tara/10''"
  have unlocked: "\<not> write_lock empty_database" by (simp add: empty_database_def)
  have n1: "Some None \<notin> ?d1 ` {''title'', ''description'', ''channel'', ''message_link''}"
    by (simp add: sample_data_def)
  have n2: "Some None \<notin> ?d2 ` {''title'', ''description'', ''channel'', ''message_link''}"
    by (simp add: sample_data_def)
  have same: "dict_get ?d1 ''message_link'' (Some []) = dict_get ?d2 ''message_link'' (Some [])"
    by (simp add: dict_get_def sample_data_def)
  show ?thesis
    using add_sermon_replace_on_conflict
      [where db = empty_database and ?t1.0 = 100 and ?d1.0 = ?d1 and ?t2.0 = 200 and ?d2.0 = ?d2
         and ?db0.0 = empty_database and ?t0.0 = 100 and ?d0.0 = ?d1, OF unlocked n1 n2 same]
    by (simp add: add_sermon_def dict_get_def sample_data_def Let_def get_sermon_count_def
          empty_database_def)
qed

end
